theory Spec2Isabelle
  imports Main
begin

section \<open>Data model\<close>

text \<open>
  The bot has three modules: the store (\<^verbatim>\<open>Database\<close>, SQLite behind it), the service
  (\<^verbatim>\<open>WhatsAppService\<close>, a chat session behind it) and the HTTP routes (\<^verbatim>\<open>ApiServer\<close>).
  The SQL engine, the chat session and the console are outside the program. Each call
  the program makes on one of them is recorded as an \<open>effect\<close>, in the order the calls
  are made, and what the collaborator answers is an argument of the model:
  \<^item> the error the engine hands to a statement's callback (\<open>None\<close>: the statement ran);
  \<^item> the reading of the engine's clock when a row is inserted (\<^verbatim>\<open>CURRENT_TIMESTAMP\<close>);
  \<^item> the session, a state of an arbitrary type \<open>'c\<close> with a transition function for
    each of \<^verbatim>\<open>client.initialize\<close> and \<^verbatim>\<open>client.sendMessage\<close> that answers with the
    outcome of the call.

  JavaScript strings are modelled as \<open>string\<close>, the UTF-8 bytes of the text. A
  console line is its text, and for \<^verbatim>\<open>console.error\<close> the object logged after the text
  is the \<open>error option\<close> beside it. The replies of the bot are named by a constructor
  each instead of spelled out.

  Every listener and every operation is modelled as running to completion: the awaited
  calls of one run are not interleaved with another run.
\<close>

type_synonym timestamp = nat

text \<open>
  The pictograms that open the console lines (U+2705, U+274C and U+1F4E9) and the two
  accented letters of the Spanish lines (U+00E1, U+00FA), as their UTF-8 bytes.
\<close>

definition ok_mark :: string where
  "ok_mark = [CHR 0xE2, CHR 0x9C, CHR 0x85]"

definition error_mark :: string where
  "error_mark = [CHR 0xE2, CHR 0x9D, CHR 0x8C]"

definition inbox_mark :: string where
  "inbox_mark = [CHR 0xF0, CHR 0x9F, CHR 0x93, CHR 0xA9]"

definition a_acute :: string where
  "a_acute = [CHR 0xC3, CHR 0xA1]"

definition u_acute :: string where
  "u_acute = [CHR 0xC3, CHR 0xBA]"

datatype error =
    TypeError              \<comment> \<open>a property read on \<^verbatim>\<open>null\<close>\<close>
  | StoreError string      \<comment> \<open>the \<^verbatim>\<open>err\<close> of a statement's callback\<close>
  | TransportError string  \<comment> \<open>a rejection by the chat session\<close>

text \<open>
  The two tables of \<^verbatim>\<open>createTables\<close>. A table is the list of its rows in insertion
  order, which is the order of the engine-assigned \<^verbatim>\<open>id\<close>; the \<^verbatim>\<open>id\<close> column itself is
  not represented, since no function of the program reads it. \<^verbatim>\<open>phone_number\<close> is the one
  column the program may bind to \<^verbatim>\<open>undefined\<close> (an array element), so it is an option.
\<close>

record subscriber =
  whatsapp_id :: string
  phone_number :: "string option"
  first_message :: string
  subscribed_at :: timestamp

record message_row =
  m_whatsapp_id :: string
  m_message :: string
  m_received_at :: timestamp

record tables =
  subscribers :: "subscriber list"
  messages :: "message_row list"

record msg =
  msg_from :: string
  msg_body :: string
  msg_reply_err :: "string option"  \<comment> \<open>what \<^verbatim>\<open>msg.reply\<close> rejects with, if it does\<close>

datatype reply_text =
    Greeting       \<comment> \<open>the fixed greeting of the \<^verbatim>\<open>hola\<close> branch\<close>
  | InfoDump msg   \<comment> \<open>the \<^verbatim>\<open>!info\<close> header followed by \<^verbatim>\<open>JSON.stringify(msg, null, 2)\<close>\<close>
  | HelpList       \<comment> \<open>the fixed list of commands\<close>

datatype effect =
    ConsoleLog string
  | ConsoleError string "error option"
  | QrGenerate string
  | ClientInitialize
  | ClientSend string string
  | MsgReply reply_text
  | SqlInsertSubscriber string "string option" string
  | SqlInsertMessage string string
  | SqlSelectSubscribers

section \<open>The store\<close>

text \<open>
  \<^verbatim>\<open>INSERT OR IGNORE INTO subscribers\<close>: \<^verbatim>\<open>whatsapp_id\<close> is \<^verbatim>\<open>UNIQUE\<close>, so the row is
  dropped when a row with the same identity exists, and appended otherwise.
\<close>

definition sql_insert_or_ignore_subscriber ::
  "tables \<Rightarrow> timestamp \<Rightarrow> string \<Rightarrow> string option \<Rightarrow> string \<Rightarrow> tables" where
  "sql_insert_or_ignore_subscriber t now wid phone first =
     (if wid \<in> set (map whatsapp_id (subscribers t)) then t
      else t\<lparr>subscribers := subscribers t @
             [\<lparr>whatsapp_id = wid, phone_number = phone, first_message = first,
               subscribed_at = now\<rparr>]\<rparr>)"

text \<open>
  \<^verbatim>\<open>INSERT INTO messages\<close>: the table has no uniqueness constraint, and the program never
  switches foreign-key enforcement on, so the row is always appended.
\<close>

definition sql_insert_message :: "tables \<Rightarrow> timestamp \<Rightarrow> string \<Rightarrow> string \<Rightarrow> tables" where
  "sql_insert_message t now wid text =
     t\<lparr>messages := messages t @
          [\<lparr>m_whatsapp_id = wid, m_message = text, m_received_at = now\<rparr>]\<rparr>"

text \<open>
  The methods of \<^verbatim>\<open>Database\<close>. \<open>db\<close> is the field \<^verbatim>\<open>this.db\<close> (\<open>None\<close> is \<^verbatim>\<open>null\<close>, its
  value until \<^verbatim>\<open>initialize\<close>); \<open>err\<close> is what the engine passes to the callback. A
  statement that fails changes nothing. The result is the settled promise: \<open>Inl\<close> is a
  rejection.
\<close>

definition addSubscriber ::
  "tables option \<Rightarrow> string option \<Rightarrow> timestamp \<Rightarrow> string \<Rightarrow> string option \<Rightarrow> string
     \<Rightarrow> (error + bool) \<times> tables option \<times> effect list" where
  "addSubscriber db err now whatsappId phoneNumber firstMessage =
     (case db of
        None \<Rightarrow> (Inl TypeError, db, [])
      | Some t \<Rightarrow>
          (case err of
             Some e \<Rightarrow>
               (Inl (StoreError e), db,
                [SqlInsertSubscriber whatsappId phoneNumber firstMessage,
                 ConsoleError (error_mark @ '' Error adding subscriber:'') (Some (StoreError e))])
           | None \<Rightarrow>
               (Inr True,
                Some (sql_insert_or_ignore_subscriber t now whatsappId phoneNumber firstMessage),
                [SqlInsertSubscriber whatsappId phoneNumber firstMessage,
                 ConsoleLog (ok_mark @ '' Subscriber added or already exists: '' @ whatsappId)])))"

definition logMessage ::
  "tables option \<Rightarrow> string option \<Rightarrow> timestamp \<Rightarrow> string \<Rightarrow> string
     \<Rightarrow> (error + bool) \<times> tables option \<times> effect list" where
  "logMessage db err now whatsappId message =
     (case db of
        None \<Rightarrow> (Inl TypeError, db, [])
      | Some t \<Rightarrow>
          (case err of
             Some e \<Rightarrow>
               (Inl (StoreError e), db,
                [SqlInsertMessage whatsappId message,
                 ConsoleError (error_mark @ '' Error logging message:'') (Some (StoreError e))])
           | None \<Rightarrow>
               (Inr True, Some (sql_insert_message t now whatsappId message),
                [SqlInsertMessage whatsappId message,
                 ConsoleLog (ok_mark @ '' Message logged for: '' @ whatsappId)])))"

definition getAllSubscribers ::
  "tables option \<Rightarrow> string option \<Rightarrow> (error + subscriber list) \<times> effect list" where
  "getAllSubscribers db err =
     (case db of
        None \<Rightarrow> (Inl TypeError, [])
      | Some t \<Rightarrow>
          (case err of
             Some e \<Rightarrow>
               (Inl (StoreError e),
                [SqlSelectSubscribers,
                 ConsoleError (error_mark @ '' Error getting subscribers:'') (Some (StoreError e))])
           | None \<Rightarrow> (Inr (subscribers t), [SqlSelectSubscribers])))"

text \<open>
  A sequence of \<^verbatim>\<open>logMessage\<close> calls for one identity, each with the clock reading and
  the text of the call; the results of the calls are collected in call order.
\<close>

fun logMessage_calls ::
  "tables option \<Rightarrow> string \<Rightarrow> (timestamp \<times> string) list
     \<Rightarrow> (error + bool) list \<times> tables option" where
  "logMessage_calls db wid [] = ([], db)"
| "logMessage_calls db wid ((now, text) # cs) =
     (case logMessage db None now wid text of
        (r, db', _) \<Rightarrow>
          (case logMessage_calls db' wid cs of (rs, db'') \<Rightarrow> (r # rs, db'')))"

section \<open>The service\<close>

record 'c service =
  client :: "'c option"   \<comment> \<open>\<^verbatim>\<open>this.client\<close>, \<^verbatim>\<open>null\<close> until \<^verbatim>\<open>initialize\<close>\<close>
  isReady :: bool

text \<open>
  The session behind \<^verbatim>\<open>this.client\<close>: \<^verbatim>\<open>initialize()\<close> and \<^verbatim>\<open>sendMessage(to, text)\<close>, each
  from a session state to the outcome of the call and the next state. \<^verbatim>\<open>initialize()\<close>
  is not awaited, so a promise that rejects and a call that throws are told apart; for
  the awaited \<^verbatim>\<open>sendMessage\<close> both are the rejection reason.
\<close>

datatype init_outcome = InitResolved | InitRejected string | InitThrew string

record 'c session_api =
  session_initialize :: "'c \<Rightarrow> init_outcome \<times> 'c"
  session_sendMessage :: "'c \<Rightarrow> string \<Rightarrow> string \<Rightarrow> string option \<times> 'c"

text \<open>
  \<^verbatim>\<open>await this.client.sendMessage(to, message)\<close>: a \<^verbatim>\<open>TypeError\<close> when the client is
  \<^verbatim>\<open>null\<close> (no call reaches a session), else the call on the session and its outcome.
\<close>

definition client_sendMessage ::
  "'c session_api \<Rightarrow> 'c option \<Rightarrow> string \<Rightarrow> string \<Rightarrow> error option \<times> 'c option \<times> effect list"
  where
  "client_sendMessage api cl to_id message =
     (case cl of
        None \<Rightarrow> (Some TypeError, None, [])
      | Some c \<Rightarrow>
          (case session_sendMessage api c to_id message of
             (None, c') \<Rightarrow> (None, Some c', [ClientSend to_id message])
           | (Some reason, c') \<Rightarrow>
               (Some (TransportError reason), Some c', [ClientSend to_id message])))"

subsection \<open>Inbound messages\<close>

text \<open>
  \<^verbatim>\<open>String.prototype.split\<close> with a one-character separator, and the read of element 0
  of the array (\<open>None\<close> is \<^verbatim>\<open>undefined\<close>). The separator \<^verbatim>\<open>@\<close> is one byte in UTF-8 and
  occurs in no multi-byte sequence, so splitting the bytes splits the text.
\<close>

fun split_on :: "char \<Rightarrow> string \<Rightarrow> string list" where
  "split_on sep [] = [[]]"
| "split_on sep (c # cs) =
     (if c = sep then [] # split_on sep cs
      else (case split_on sep cs of
              [] \<Rightarrow> [[c]]
            | p # ps \<Rightarrow> (c # p) # ps))"

definition element0 :: "'a list \<Rightarrow> 'a option" where
  "element0 xs = (case xs of [] \<Rightarrow> None | x # _ \<Rightarrow> Some x)"

definition phoneNumber_of :: "string \<Rightarrow> string option" where
  "phoneNumber_of sender = element0 (split_on CHR ''@'' sender)"

text \<open>
  \<^verbatim>\<open>String.prototype.toLowerCase\<close> on the bytes of the text: the letters \<^verbatim>\<open>A\<close> to
  \<^verbatim>\<open>Z\<close> (65 to 90) move to \<^verbatim>\<open>a\<close> to \<^verbatim>\<open>z\<close>, every other byte is kept. JavaScript also
  lowers letters outside ASCII; of those only the Kelvin sign (U+212A) becomes text that
  is all ASCII, namely \<^verbatim>\<open>k\<close>, a letter that occurs in no command below, so the
  comparisons of \<^verbatim>\<open>handleCommands\<close> come out the same.
\<close>

definition toLowerCase_char :: "char \<Rightarrow> char" where
  "toLowerCase_char c =
     (let n = (of_char c :: nat) in if 65 \<le> n \<and> n \<le> 90 then char_of (n + 32) else c)"

definition toLowerCase :: "string \<Rightarrow> string" where
  "toLowerCase s = map toLowerCase_char s"

text \<open>\<^verbatim>\<open>await msg.reply(text)\<close>: the call is made, and it rejects or not as the message says.\<close>

definition msg_reply :: "msg \<Rightarrow> reply_text \<Rightarrow> (error + unit) \<times> effect list" where
  "msg_reply m r =
     (case msg_reply_err m of
        None \<Rightarrow> (Inr (), [MsgReply r])
      | Some reason \<Rightarrow> (Inl (TransportError reason), [MsgReply r]))"

text \<open>The body of the \<^verbatim>\<open>try\<close> of \<^verbatim>\<open>handleCommands\<close>, then the function with its \<^verbatim>\<open>catch\<close>.\<close>

definition handleCommands_try :: "msg \<Rightarrow> (error + unit) \<times> effect list" where
  "handleCommands_try m =
     (let command = toLowerCase (msg_body m) in
      if command = ''hola'' then msg_reply m Greeting
      else if command = ''!info'' then msg_reply m (InfoDump m)
      else if command = ''!ayuda'' \<or> command = ''!help'' then msg_reply m HelpList
      else (Inr (), []))"

definition handleCommands :: "msg \<Rightarrow> (error + unit) \<times> effect list" where
  "handleCommands m =
     (case handleCommands_try m of
        (Inl e, tr) \<Rightarrow>
          (Inr (), tr @ [ConsoleError (error_mark @ '' Error handling commands:'') (Some e)])
      | (Inr u, tr) \<Rightarrow> (Inr u, tr))"

text \<open>
  What the engine answers while one message is handled: the callback error and the clock
  reading of each of the two statements.
\<close>

record msg_env =
  add_err :: "string option"
  add_now :: timestamp
  log_err :: "string option"
  log_now :: timestamp

text \<open>
  The \<^verbatim>\<open>message\<close> listener. Its \<^verbatim>\<open>try\<close> runs the three awaited calls in order, and the
  first rejection goes to the \<^verbatim>\<open>catch\<close>, which logs it.
\<close>

definition on_message :: "tables option \<Rightarrow> msg_env \<Rightarrow> msg \<Rightarrow> tables option \<times> effect list" where
  "on_message db env m =
     (let received =
            ConsoleLog (inbox_mark @ '' Mensaje recibido de '' @ msg_from m @ '': '' @ msg_body m);
          phoneNumber = phoneNumber_of (msg_from m)
      in case addSubscriber db (add_err env) (add_now env) (msg_from m) phoneNumber (msg_body m) of
           (Inl e, db1, tr1) \<Rightarrow>
             (db1, received # tr1 @
                   [ConsoleError (error_mark @ '' Error processing message:'') (Some e)])
         | (Inr _, db1, tr1) \<Rightarrow>
             (case logMessage db1 (log_err env) (log_now env) (msg_from m) (msg_body m) of
                (Inl e, db2, tr2) \<Rightarrow>
                  (db2, received # tr1 @ tr2 @
                        [ConsoleError (error_mark @ '' Error processing message:'') (Some e)])
              | (Inr _, db2, tr2) \<Rightarrow>
                  (case handleCommands m of
                     (Inl e, tr3) \<Rightarrow>
                       (db2, received # tr1 @ tr2 @ tr3 @
                             [ConsoleError (error_mark @ '' Error processing message:'') (Some e)])
                   | (Inr _, tr3) \<Rightarrow> (db2, received # tr1 @ tr2 @ tr3))))"

subsection \<open>Session events\<close>

definition on_qr :: "string \<Rightarrow> effect list" where
  "on_qr qr =
     [ConsoleLog (''Escanea este QR con el n'' @ u_acute @ ''mero del bot:''), QrGenerate qr]"

definition on_ready :: "'c service \<Rightarrow> 'c service \<times> effect list" where
  "on_ready w =
     (w\<lparr>isReady := True\<rparr>, [ConsoleLog (ok_mark @ '' Bot est'' @ a_acute @ '' listo!'')])"

text \<open>
  The \<^verbatim>\<open>disconnected\<close> listener: the flag is cleared, then \<^verbatim>\<open>this.client.initialize()\<close> is
  called once. A rejection is logged by the \<^verbatim>\<open>.catch\<close> on the promise (here right after
  the call), an exception by the listener's own \<^verbatim>\<open>catch\<close>; neither calls again.
\<close>

definition on_disconnected ::
  "'c session_api \<Rightarrow> 'c service \<Rightarrow> string \<Rightarrow> 'c service \<times> effect list" where
  "on_disconnected api w reason =
     (let w1 = w\<lparr>isReady := False\<rparr>;
          gone = ConsoleLog (error_mark @ '' Bot desconectado: '' @ reason)
      in case client w1 of
           None \<Rightarrow>
             (w1, [gone,
                   ConsoleError (error_mark @ '' Error handling disconnection:'')
                     (Some TypeError)])
         | Some c \<Rightarrow>
             (case session_initialize api c of
                (InitResolved, c') \<Rightarrow> (w1\<lparr>client := Some c'\<rparr>, [gone, ClientInitialize])
              | (InitRejected r, c') \<Rightarrow>
                  (w1\<lparr>client := Some c'\<rparr>,
                   [gone, ClientInitialize,
                    ConsoleError (error_mark @ '' Error reconnecting WhatsApp client:'')
                      (Some (TransportError r))])
              | (InitThrew r, c') \<Rightarrow>
                  (w1\<lparr>client := Some c'\<rparr>,
                   [gone, ClientInitialize,
                    ConsoleError (error_mark @ '' Error handling disconnection:'')
                      (Some (TransportError r))])))"

definition on_auth_failure :: "string \<Rightarrow> effect list" where
  "on_auth_failure reason =
     [ConsoleError (error_mark @ '' Authentication failed:'') (Some (TransportError reason))]"

text \<open>
  The events the session emits, and the listener \<^verbatim>\<open>setupEventHandlers\<close> registers for
  each. The state is the service with the store's connection.
\<close>

datatype client_event =
    EvQr string
  | EvReady
  | EvDisconnected string
  | EvMessage msg msg_env
  | EvAuthFailure string

fun emit ::
  "'c session_api \<Rightarrow> 'c service \<times> tables option \<Rightarrow> client_event
     \<Rightarrow> ('c service \<times> tables option) \<times> effect list" where
  "emit api (w, db) (EvQr qr) = ((w, db), on_qr qr)"
| "emit api (w, db) EvReady = (case on_ready w of (w', tr) \<Rightarrow> ((w', db), tr))"
| "emit api (w, db) (EvDisconnected reason) =
     (case on_disconnected api w reason of (w', tr) \<Rightarrow> ((w', db), tr))"
| "emit api (w, db) (EvMessage m env) =
     (case on_message db env m of (db', tr) \<Rightarrow> ((w, db'), tr))"
| "emit api (w, db) (EvAuthFailure reason) = ((w, db), on_auth_failure reason)"

fun emit_all ::
  "'c session_api \<Rightarrow> 'c service \<times> tables option \<Rightarrow> client_event list
     \<Rightarrow> ('c service \<times> tables option) \<times> effect list" where
  "emit_all api st [] = (st, [])"
| "emit_all api st (ev # evs) =
     (case emit api st ev of
        (st', tr) \<Rightarrow> (case emit_all api st' evs of (st'', tr') \<Rightarrow> (st'', tr @ tr')))"

subsection \<open>Outbound messages\<close>

text \<open>The body of the \<^verbatim>\<open>try\<close> of \<^verbatim>\<open>sendMessage\<close>, then the function with its \<^verbatim>\<open>catch\<close>.\<close>

definition sendMessage_try ::
  "'c session_api \<Rightarrow> 'c service \<Rightarrow> string \<Rightarrow> string
     \<Rightarrow> (error + bool) \<times> 'c service \<times> effect list" where
  "sendMessage_try api w to_id message =
     (if \<not> isReady w then
        (Inr False, w, [ConsoleError (error_mark @ '' WhatsApp client not ready'') None])
      else (case client_sendMessage api (client w) to_id message of
              (Some e, cl, tr) \<Rightarrow> (Inl e, w\<lparr>client := cl\<rparr>, tr)
            | (None, cl, tr) \<Rightarrow>
                (Inr True, w\<lparr>client := cl\<rparr>,
                 tr @ [ConsoleLog (ok_mark @ '' Message sent to '' @ to_id)])))"

definition sendMessage ::
  "'c session_api \<Rightarrow> 'c service \<Rightarrow> string \<Rightarrow> string
     \<Rightarrow> (error + bool) \<times> 'c service \<times> effect list" where
  "sendMessage api w to_id message =
     (case sendMessage_try api w to_id message of
        (Inl e, w', tr) \<Rightarrow>
          (Inr False, w',
           tr @ [ConsoleError (error_mark @ '' Error sending message to '' @ to_id @ '':'') (Some e)])
      | (Inr b, w', tr) \<Rightarrow> (Inr b, w', tr))"

text \<open>
  The \<^verbatim>\<open>for\<close> loop of \<^verbatim>\<open>broadcastMessage\<close> over the rows read, with the two counters, the
  client and the effects so far as the loop state. The counters are JavaScript numbers,
  exact up to \<open>2^53\<close>, which no subscriber table reaches; they are natural numbers here. The inner \<^verbatim>\<open>try\<close> and \<^verbatim>\<open>catch\<close> are the
  two branches of one iteration.
\<close>

fun broadcast_loop ::
  "'c session_api \<Rightarrow> string \<Rightarrow> subscriber list \<Rightarrow> nat \<times> nat \<times> 'c option \<times> effect list
     \<Rightarrow> nat \<times> nat \<times> 'c option \<times> effect list" where
  "broadcast_loop api message [] st = st"
| "broadcast_loop api message (subscriber # rest) (success, failed, cl, tr) =
     (case client_sendMessage api cl (whatsapp_id subscriber) message of
        (None, cl', tr') \<Rightarrow>
          broadcast_loop api message rest
            (success + 1, failed, cl',
             tr @ tr' @
             [ConsoleLog (ok_mark @ '' Broadcast message sent to '' @ whatsapp_id subscriber)])
      | (Some e, cl', tr') \<Rightarrow>
          broadcast_loop api message rest
            (success, failed + 1, cl',
             tr @ tr' @
             [ConsoleError
                (error_mark @ '' Error sending broadcast to '' @ whatsapp_id subscriber @ '':'')
                (Some e)]))"

text \<open>The object \<^verbatim>\<open>{ success, failed }\<close> a broadcast returns.\<close>

record tally =
  success :: nat
  failed :: nat

definition broadcastMessage_try ::
  "'c session_api \<Rightarrow> 'c service \<Rightarrow> tables option \<Rightarrow> string option \<Rightarrow> string
     \<Rightarrow> (error + tally) \<times> 'c service \<times> effect list" where
  "broadcastMessage_try api w db err message =
     (if \<not> isReady w then
        (Inr \<lparr>success = 0, failed = 0\<rparr>, w,
         [ConsoleError (error_mark @ '' WhatsApp client not ready'') None])
      else (case getAllSubscribers db err of
              (Inl e, tr) \<Rightarrow> (Inl e, w, tr)
            | (Inr rows, tr) \<Rightarrow>
                (case broadcast_loop api message rows (0, 0, client w, tr) of
                   (s, f, cl, tr') \<Rightarrow>
                     (Inr \<lparr>success = s, failed = f\<rparr>, w\<lparr>client := cl\<rparr>, tr'))))"

definition broadcastMessage ::
  "'c session_api \<Rightarrow> 'c service \<Rightarrow> tables option \<Rightarrow> string option \<Rightarrow> string
     \<Rightarrow> (error + tally) \<times> 'c service \<times> effect list" where
  "broadcastMessage api w db err message =
     (case broadcastMessage_try api w db err message of
        (Inl e, w', tr) \<Rightarrow>
          (Inr \<lparr>success = 0, failed = 0\<rparr>, w',
           tr @ [ConsoleError (error_mark @ '' Error broadcasting message:'') (Some e)])
      | (Inr t, w', tr) \<Rightarrow> (Inr t, w', tr))"

section \<open>The HTTP routes\<close>

text \<open>
  What the route reads as \<^verbatim>\<open>req.body\<close> of \<^verbatim>\<open>POST /api/send\<close>. It is \<^verbatim>\<open>undefined\<close>
  (\<open>None\<close>) when no body parser has handled the request, or an object in which each of
  the two fields is absent (\<open>None\<close>) or a string. Which of the two a request without a
  readable body gives is decided by the HTTP framework and its body parser, whose
  versions the source does not fix, so both are inputs of the model. The response is the
  status code with the JSON envelope; \<^verbatim>\<open>res.json\<close> without \<^verbatim>\<open>res.status\<close> answers 200.
\<close>

record send_request =
  req_to :: "string option"
  req_message :: "string option"

datatype envelope =
    Failure string   \<comment> \<open>\<^verbatim>\<open>{success: false, error}\<close>\<close>
  | Success string   \<comment> \<open>\<^verbatim>\<open>{success: true, message}\<close>\<close>

fun envelope_success :: "envelope \<Rightarrow> bool" where
  "envelope_success (Failure _) = False"
| "envelope_success (Success _) = True"

record response =
  status :: nat
  body :: envelope

text \<open>
  The route's guard \<^verbatim>\<open>!to || !message\<close>: a field is falsy when it is absent and also
  when it is the empty string.
\<close>

definition falsy :: "string option \<Rightarrow> bool" where
  "falsy v = (case v of None \<Rightarrow> True | Some s \<Rightarrow> s = [])"

definition both_required :: string where
  \<open>both_required = ''Both "to" and "message" are required''\<close>

text \<open>
  The body of the route's \<^verbatim>\<open>try\<close>, then the route with its \<^verbatim>\<open>catch\<close>. The
  destructuring \<^verbatim>\<open>const { to, message } = req.body\<close> throws a \<^verbatim>\<open>TypeError\<close> on
  \<^verbatim>\<open>undefined\<close>; on an object it is the \<^theory_text>\<open>case\<close> on the two fields, where an
  absent field is falsy and so takes the guard's branch.
\<close>

definition post_api_send_try ::
  "'c session_api \<Rightarrow> 'c service \<Rightarrow> send_request option
     \<Rightarrow> (error + response) \<times> 'c service \<times> effect list" where
  "post_api_send_try api w req_body =
     (case req_body of
        None \<Rightarrow> (Inl TypeError, w, [])
      | Some req \<Rightarrow>
          (case (req_to req, req_message req) of
             (Some to_id, Some message) \<Rightarrow>
               (if falsy (Some to_id) \<or> falsy (Some message) then
                  (Inr \<lparr>status = 400, body = Failure both_required\<rparr>, w, [])
                else (case sendMessage api w to_id message of
                        (Inr True, w', tr) \<Rightarrow>
                          (Inr \<lparr>status = 200, body = Success ''Message sent successfully''\<rparr>,
                           w', tr)
                      | (Inr False, w', tr) \<Rightarrow>
                          (Inr \<lparr>status = 500, body = Failure ''Failed to send message''\<rparr>,
                           w', tr)
                      | (Inl e, w', tr) \<Rightarrow> (Inl e, w', tr)))
           | _ \<Rightarrow> (Inr \<lparr>status = 400, body = Failure both_required\<rparr>, w, [])))"

definition post_api_send ::
  "'c session_api \<Rightarrow> 'c service \<Rightarrow> send_request option
     \<Rightarrow> response \<times> 'c service \<times> effect list" where
  "post_api_send api w req_body =
     (case post_api_send_try api w req_body of
        (Inl e, w', tr) \<Rightarrow>
          (\<lparr>status = 500, body = Failure ''Failed to send message''\<rparr>, w',
           tr @ [ConsoleError (error_mark @ '' Error in send message endpoint:'') (Some e)])
      | (Inr res, w', tr) \<Rightarrow> (res, w', tr))"

section \<open>Observations and examples\<close>

text \<open>
  What a run shows to the outside: the calls of \<^verbatim>\<open>client.sendMessage\<close> that reached the
  session and the replies attempted, each in the order made.
\<close>

fun sends_of :: "effect list \<Rightarrow> (string \<times> string) list" where
  "sends_of [] = []"
| "sends_of (ClientSend to_id message # es) = (to_id, message) # sends_of es"
| "sends_of (_ # es) = sends_of es"

fun replies_of :: "effect list \<Rightarrow> reply_text list" where
  "replies_of [] = []"
| "replies_of (MsgReply r # es) = r # replies_of es"
| "replies_of (_ # es) = replies_of es"

text \<open>
  What the session answers to a sequence of sends of one text, started in state \<open>c\<close>:
  \<open>True\<close> for a send that resolves, \<open>False\<close> for one that rejects.
\<close>

fun session_outcomes :: "'c session_api \<Rightarrow> 'c \<Rightarrow> string \<Rightarrow> string list \<Rightarrow> bool list" where
  "session_outcomes api c message [] = []"
| "session_outcomes api c message (i # ids) =
     (case session_sendMessage api c i message of
        (r, c') \<Rightarrow> (r = None) # session_outcomes api c' message ids)"

text \<open>The row a \<^verbatim>\<open>logMessage\<close> call for \<open>wid\<close> adds, from the clock reading and the text.\<close>

definition message_row_of :: "string \<Rightarrow> timestamp \<times> string \<Rightarrow> message_row" where
  "message_row_of wid c = \<lparr>m_whatsapp_id = wid, m_message = snd c, m_received_at = fst c\<rparr>"

text \<open>
  A session for the examples: its state counts the sends, every send to \<^verbatim>\<open>S2\<close> is
  rejected and every other one resolves.
\<close>

definition example_session :: "nat session_api" where
  "example_session =
     \<lparr>session_initialize = (\<lambda>c. (InitResolved, 0)),
      session_sendMessage =
        (\<lambda>c to_id message. (if to_id = ''S2'' then Some ''offline'' else None, c + 1))\<rparr>"

definition example_ready :: "nat service" where
  "example_ready = \<lparr>client = Some 0, isReady = True\<rparr>"

definition example_not_ready :: "nat service" where
  "example_not_ready = \<lparr>client = Some 0, isReady = False\<rparr>"

definition example_subscriber :: "string \<Rightarrow> subscriber" where
  "example_subscriber wid =
     \<lparr>whatsapp_id = wid, phone_number = Some wid, first_message = ''hola'', subscribed_at = 0\<rparr>"

definition example_tables :: tables where
  "example_tables =
     \<lparr>subscribers = [example_subscriber ''S1'', example_subscriber ''S2''], messages = []\<rparr>"

definition empty_tables :: tables where
  "empty_tables = \<lparr>subscribers = [], messages = []\<rparr>"

text \<open>The message rows of a connection (none when there is no connection).\<close>

definition messages_in :: "tables option \<Rightarrow> message_row list" where
  "messages_in db = (case db of None \<Rightarrow> [] | Some t \<Rightarrow> messages t)"

text \<open>
  \<open>is_casing_of w s\<close>: the text \<open>s\<close> is the word \<open>w\<close> up to the case of its letters,
  that is, byte by byte \<open>s\<close> has the byte of \<open>w\<close> or, where that is a letter \<^verbatim>\<open>a\<close> to
  \<^verbatim>\<open>z\<close> (97 to 122), its capital.
\<close>

definition is_casing_of :: "string \<Rightarrow> string \<Rightarrow> bool" where
  "is_casing_of w s =
     list_all2
       (\<lambda>c l. c = l \<or> (97 \<le> (of_char l :: nat) \<and> (of_char l :: nat) \<le> 122
                        \<and> (of_char c :: nat) + 32 = of_char l))
       s w"

fun is_disconnect :: "client_event \<Rightarrow> bool" where
  "is_disconnect (EvDisconnected _) = True"
| "is_disconnect _ = False"

section \<open>Properties of the store\<close>

text \<open>
  C4. With the statement run by the engine, \<^verbatim>\<open>addSubscriber\<close> resolves to \<^verbatim>\<open>true\<close>
  whether or not the identity is in the table, and leaves the table as it is when the
  identity is there. So from a table without the identity, a first insert followed by a
  second one with any other phone number, message and time both resolve to \<^verbatim>\<open>true\<close>,
  the second changes nothing, and the table holds exactly one row of that identity: the
  row of the first insert, with its first message.
\<close>

theorem addSubscriber_twice_keeps_first_row:
  "fst (addSubscriber (Some t) None now wid p m) = Inr True
   \<and> (wid \<in> set (map whatsapp_id (subscribers t)) \<longrightarrow>
        fst (snd (addSubscriber (Some t) None now wid p m)) = Some t)
   \<and> (wid \<notin> set (map whatsapp_id (subscribers t)) \<longrightarrow>
        (case addSubscriber (Some t) None now wid p m of
           (r1, db1, tr1) \<Rightarrow>
             (case addSubscriber db1 None now' wid p' m' of
                (r2, db2, tr2) \<Rightarrow>
                  r1 = Inr True \<and> r2 = Inr True \<and> db2 = db1
                  \<and> db2 = Some (t\<lparr>subscribers := subscribers t @
                        [\<lparr>whatsapp_id = wid, phone_number = p, first_message = m,
                          subscribed_at = now\<rparr>]\<rparr>)
                  \<and> filter (\<lambda>s. whatsapp_id s = wid)
                       (subscribers t @
                        [\<lparr>whatsapp_id = wid, phone_number = p, first_message = m,
                          subscribed_at = now\<rparr>])
                     = [\<lparr>whatsapp_id = wid, phone_number = p, first_message = m,
                          subscribed_at = now\<rparr>])))"
proof -
  have absent: "filter (\<lambda>s. whatsapp_id s = wid) (subscribers t) = []"
    if "wid \<notin> set (map whatsapp_id (subscribers t))"
    using that by (auto simp: filter_empty_conv)
  show ?thesis
    by (simp add: addSubscriber_def sql_insert_or_ignore_subscriber_def absent)
qed

theorem addSubscriber_twice_keeps_first_row_witness:
  "''S1'' \<in> set (map whatsapp_id (subscribers example_tables))
   \<and> fst (snd (addSubscriber (Some example_tables) None 7 ''S1'' None ''again'')) = Some example_tables
   \<and> ''5551234567@c.us'' \<notin> set (map whatsapp_id (subscribers empty_tables))
   \<and> (case addSubscriber (Some empty_tables) None 10 ''5551234567@c.us'' (Some ''5551234567'')
             ''hola'' of
         (r1, db1, tr1) \<Rightarrow>
           (case addSubscriber db1 None 20 ''5551234567@c.us'' (Some ''5551234567'') ''adios'' of
              (r2, db2, tr2) \<Rightarrow>
                r1 = Inr True \<and> r2 = Inr True
                \<and> db2 = Some \<lparr>subscribers =
                                 [\<lparr>whatsapp_id = ''5551234567@c.us'',
                                   phone_number = Some ''5551234567'', first_message = ''hola'',
                                   subscribed_at = 10\<rparr>],
                               messages = []\<rparr>))"
proof -
  have h1: "''S1'' \<in> set (map whatsapp_id (subscribers example_tables))"
    by (simp add: example_tables_def example_subscriber_def)
  have h2: "''5551234567@c.us'' \<notin> set (map whatsapp_id (subscribers empty_tables))"
    by (simp add: empty_tables_def)
  from addSubscriber_twice_keeps_first_row
         [where t = example_tables and now = 7 and wid = "''S1''" and p = None
            and m = "''again''"]
    addSubscriber_twice_keeps_first_row
         [where t = empty_tables and now = 10 and wid = "''5551234567@c.us''"
            and p = "Some ''5551234567''" and m = "''hola''" and now' = 20
            and p' = "Some ''5551234567''" and m' = "''adios''"]
  show ?thesis
    using h1 h2 by (auto simp: empty_tables_def split: prod.splits)
qed

lemma logMessage_calls_result:
  "logMessage_calls (Some t) wid cs =
     (replicate (length cs) (Inr True),
      Some (t\<lparr>messages := messages t @ map (message_row_of wid) cs\<rparr>))"
proof (induction cs arbitrary: t)
  case Nil
  show ?case by simp
next
  case (Cons c cs)
  obtain now s where c: "c = (now, s)" by (cases c)
  show ?case
    by (simp add: c logMessage_def sql_insert_message_def message_row_of_def Cons.IH)
qed

lemma message_row_of_fields:
  "m_whatsapp_id (message_row_of wid c) = wid"
  "m_message (message_row_of wid c) = snd c"
  "m_received_at (message_row_of wid c) = fst c"
  by (simp_all add: message_row_of_def)

lemma filter_message_row_of:
  "filter (\<lambda>r. m_whatsapp_id r = wid) (map (message_row_of wid) cs) = map (message_row_of wid) cs"
  by (induction cs) (simp_all add: message_row_of_fields)

text \<open>
  C5, as the code has it. From an open connection, \<open>N\<close> calls of \<^verbatim>\<open>logMessage\<close> for one
  identity, each run by the engine, all resolve to \<^verbatim>\<open>true\<close> and leave the table as the
  rows it had, unchanged and in place, followed by \<open>N\<close> new rows of that identity, one per
  call in call order, each with the text of its call and the clock reading of its insert;
  the subscribers table is not touched, and no row of that identity is needed there. The
  program sets no timestamp itself: the timestamps are the engine's clock readings. So
  the table is in timestamp order exactly when those readings, over the rows already
  there and the calls, never go back, and exactly then sorting the table by timestamp,
  keeping the order of equal timestamps, changes nothing.
\<close>

theorem logMessage_append_only:
  "(case logMessage_calls (Some t) wid cs of
      (rs, db') \<Rightarrow>
        rs = replicate (length cs) (Inr True)
        \<and> db' = Some (t\<lparr>messages := messages t @ map (message_row_of wid) cs\<rparr>)
        \<and> length (messages_in db') = length (messages t) + length cs
        \<and> length (filter (\<lambda>r. m_whatsapp_id r = wid) (messages_in db'))
            = length (filter (\<lambda>r. m_whatsapp_id r = wid) (messages t)) + length cs
        \<and> take (length (messages t)) (messages_in db') = messages t
        \<and> map m_whatsapp_id (drop (length (messages t)) (messages_in db'))
            = replicate (length cs) wid
        \<and> map m_message (drop (length (messages t)) (messages_in db')) = map snd cs
        \<and> map m_received_at (drop (length (messages t)) (messages_in db')) = map fst cs
        \<and> sorted (map m_received_at (messages_in db'))
            = sorted (map m_received_at (messages t) @ map fst cs)
        \<and> (sort_key m_received_at (messages_in db') = messages_in db')
            = sorted (map m_received_at (messages t) @ map fst cs))"
proof -
  let ?new = "map (message_row_of wid) cs"
  have ids: "map m_whatsapp_id ?new = replicate (length cs) wid"
    by (simp add: comp_def message_row_of_fields map_replicate_const)
  have texts: "map m_message ?new = map snd cs"
    by (simp add: comp_def message_row_of_fields)
  have times: "map m_received_at ?new = map fst cs"
    by (simp add: comp_def message_row_of_fields)
  have times_all: "map m_received_at (messages t @ ?new)
                     = map m_received_at (messages t) @ map fst cs"
    using times by simp
  have srt1: "sorted (map m_received_at (messages t @ ?new))
                = sorted (map m_received_at (messages t) @ map fst cs)"
    by (simp only: times_all)
  have srt2: "(sort_key m_received_at (messages t @ ?new) = messages t @ ?new)
                = sorted (map m_received_at (messages t) @ map fst cs)"
  proof
    assume fixed: "sort_key m_received_at (messages t @ ?new) = messages t @ ?new"
    have "sorted (map m_received_at (sort_key m_received_at (messages t @ ?new)))"
      by (rule sorted_sort_key)
    then show "sorted (map m_received_at (messages t) @ map fst cs)"
      by (simp only: fixed times_all)
  next
    assume "sorted (map m_received_at (messages t) @ map fst cs)"
    then have "sorted (map m_received_at (messages t @ ?new))"
      by (simp only: times_all)
    then show "sort_key m_received_at (messages t @ ?new) = messages t @ ?new"
      by (rule sort_key_id_if_sorted)
  qed
  have len: "length (filter (\<lambda>r. m_whatsapp_id r = wid) (messages t @ ?new))
               = length (filter (\<lambda>r. m_whatsapp_id r = wid) (messages t)) + length cs"
    by (simp add: filter_message_row_of)
  show ?thesis
    unfolding logMessage_calls_result prod.case messages_in_def option.case tables.simps
    using ids texts times len srt1 srt2 by simp
qed

text \<open>
  C5 fails as stated: it promises the rows in timestamp order with no condition on the
  clock. Two calls for \<^verbatim>\<open>S1\<close>, the first run when the engine's clock reads 5 and the
  second after the clock was set back to 3, leave the rows in call order, which is not
  their timestamp order: sorted by timestamp, the second message comes first.
\<close>

theorem logMessage_clock_set_back_counterexample:
  "logMessage_calls (Some empty_tables) ''S1'' [(5, ''first''), (3, ''second'')]
     = ([Inr True, Inr True],
        Some \<lparr>subscribers = [],
              messages = [\<lparr>m_whatsapp_id = ''S1'', m_message = ''first'', m_received_at = 5\<rparr>,
                          \<lparr>m_whatsapp_id = ''S1'', m_message = ''second'', m_received_at = 3\<rparr>]\<rparr>)
   \<and> \<not> sorted (map m_received_at (messages_in
           (snd (logMessage_calls (Some empty_tables) ''S1'' [(5, ''first''), (3, ''second'')]))))
   \<and> map m_message (sort_key m_received_at (messages_in
           (snd (logMessage_calls (Some empty_tables) ''S1'' [(5, ''first''), (3, ''second'')]))))
       = [''second'', ''first'']"
  by (simp add: logMessage_def sql_insert_message_def empty_tables_def messages_in_def)

theorem logMessage_append_only_witness:
  "sorted (map m_received_at (messages empty_tables) @ map fst [(1, ''a''), (1, ''b''), (3, ''c'')])
   \<and> logMessage_calls (Some empty_tables) ''S1'' [(1, ''a''), (1, ''b''), (3, ''c'')]
       = ([Inr True, Inr True, Inr True],
          Some \<lparr>subscribers = [],
                messages = [\<lparr>m_whatsapp_id = ''S1'', m_message = ''a'', m_received_at = 1\<rparr>,
                            \<lparr>m_whatsapp_id = ''S1'', m_message = ''b'', m_received_at = 1\<rparr>,
                            \<lparr>m_whatsapp_id = ''S1'', m_message = ''c'', m_received_at = 3\<rparr>]\<rparr>)
   \<and> sorted (map m_received_at (messages_in
         (snd (logMessage_calls (Some empty_tables) ''S1'' [(1, ''a''), (1, ''b''), (3, ''c'')]))))
   \<and> sort_key m_received_at (messages_in
         (snd (logMessage_calls (Some empty_tables) ''S1'' [(1, ''a''), (1, ''b''), (3, ''c'')])))
       = messages_in
           (snd (logMessage_calls (Some empty_tables) ''S1'' [(1, ''a''), (1, ''b''), (3, ''c'')]))"
proof -
  have h: "sorted (map m_received_at (messages empty_tables)
                   @ map fst [(1::nat, ''a''), (1, ''b''), (3, ''c'')])"
    by (simp add: empty_tables_def)
  from logMessage_append_only
         [where t = empty_tables and wid = "''S1''" and cs = "[(1, ''a''), (1, ''b''), (3, ''c'')]"]
  show ?thesis
    using h
    by (auto simp: empty_tables_def message_row_of_def numeral_3_eq_3 split: prod.splits)
qed

section \<open>Properties of the inbound handler\<close>

lemma split_on_nonempty: "split_on sep s \<noteq> []"
  by (induction s) (auto split: list.splits)

lemma element0_split_on:
  "element0 (split_on sep s) = Some (takeWhile (\<lambda>c. c \<noteq> sep) s)"
  by (induction s) (auto simp: element0_def split: list.splits)

lemma phoneNumber_of_takeWhile:
  "phoneNumber_of s = Some (takeWhile (\<lambda>c. c \<noteq> CHR ''@'') s)"
  by (simp add: phoneNumber_of_def element0_split_on)

text \<open>
  C8. The phone number the message handler derives is always defined and is the
  sender address up to, and without, its first \<^verbatim>\<open>@\<close>: an address \<open>p @ ''@'' @ rest\<close>
  whose prefix \<open>p\<close> has no \<^verbatim>\<open>@\<close> yields \<open>p\<close>, whatever follows the separator, an address
  without separator is kept whole, and \<^verbatim>\<open>5551234567@c.us\<close> yields \<^verbatim>\<open>5551234567\<close>. This
  is the phone number the handler binds in the insert of the subscriber, next to the
  whole address as identity and the message text.
\<close>

theorem phoneNumber_is_prefix_before_separator:
  "phoneNumber_of sender = Some (takeWhile (\<lambda>c. c \<noteq> CHR ''@'') sender)
   \<and> (CHR ''@'' \<notin> set p \<longrightarrow> phoneNumber_of (p @ CHR ''@'' # rest) = Some p)
   \<and> (CHR ''@'' \<notin> set sender \<longrightarrow> phoneNumber_of sender = Some sender)
   \<and> phoneNumber_of ''5551234567@c.us'' = Some ''5551234567''
   \<and> take 2 (snd (on_message (Some t) env m))
       = [ConsoleLog (inbox_mark @ '' Mensaje recibido de '' @ msg_from m @ '': '' @ msg_body m),
          SqlInsertSubscriber (msg_from m)
            (Some (takeWhile (\<lambda>c. c \<noteq> CHR ''@'') (msg_from m))) (msg_body m)]"
proof -
  have b: "CHR ''@'' \<notin> set p \<Longrightarrow> takeWhile (\<lambda>c. c \<noteq> CHR ''@'') (p @ CHR ''@'' # rest) = p"
    by (induction p) auto
  have c: "CHR ''@'' \<notin> set sender \<Longrightarrow> takeWhile (\<lambda>c. c \<noteq> CHR ''@'') sender = sender"
    by (induction sender) auto
  have d: "phoneNumber_of ''5551234567@c.us'' = Some ''5551234567''"
    by (simp add: phoneNumber_of_takeWhile)
  have e: "take 2 (snd (on_message (Some t) env m))
       = [ConsoleLog (inbox_mark @ '' Mensaje recibido de '' @ msg_from m @ '': '' @ msg_body m),
          SqlInsertSubscriber (msg_from m)
            (Some (takeWhile (\<lambda>c. c \<noteq> CHR ''@'') (msg_from m))) (msg_body m)]"
    by (auto simp: on_message_def Let_def addSubscriber_def phoneNumber_of_takeWhile
          numeral_2_eq_2 split: option.splits prod.splits sum.splits)
  from b c d e show ?thesis by (simp add: phoneNumber_of_takeWhile)
qed

theorem phoneNumber_is_prefix_before_separator_witness:
  "CHR ''@'' \<notin> set ''5551234567''
   \<and> phoneNumber_of (''5551234567'' @ CHR ''@'' # ''c.us@x'') = Some ''5551234567''
   \<and> CHR ''@'' \<notin> set ''status''
   \<and> phoneNumber_of ''status'' = Some ''status''"
  using phoneNumber_is_prefix_before_separator
          [where sender = "''status''" and p = "''5551234567''" and rest = "''c.us@x''"]
  by simp

lemma of_char_less_256: "(of_char c :: nat) < 256"
proof -
  have "(of_char c :: nat) mod 256 = of_char c" by (rule of_char_mod_256)
  moreover have "(of_char c :: nat) mod 256 < 256" by simp
  ultimately show ?thesis by simp
qed

lemma of_char_toLowerCase_char:
  "(of_char (toLowerCase_char c) :: nat) =
     (if 65 \<le> (of_char c :: nat) \<and> (of_char c :: nat) \<le> 90 then of_char c + 32 else of_char c)"
  by (simp add: toLowerCase_char_def Let_def)

lemma toLowerCase_char_eq_iff:
  assumes "\<not> (65 \<le> (of_char l :: nat) \<and> (of_char l :: nat) \<le> 90)"
  shows "toLowerCase_char c = l \<longleftrightarrow>
           c = l \<or> (97 \<le> (of_char l :: nat) \<and> (of_char l :: nat) \<le> 122
                     \<and> (of_char c :: nat) + 32 = of_char l)"
proof -
  have inj: "c = l \<longleftrightarrow> (of_char c :: nat) = of_char l" by simp
  have "toLowerCase_char c = l \<longleftrightarrow> (of_char (toLowerCase_char c) :: nat) = of_char l"
    by simp
  also have "\<dots> \<longleftrightarrow>
      (of_char c :: nat) = of_char l
      \<or> (97 \<le> (of_char l :: nat) \<and> (of_char l :: nat) \<le> 122
          \<and> (of_char c :: nat) + 32 = of_char l)"
    unfolding of_char_toLowerCase_char using assms by auto
  finally show ?thesis unfolding inj .
qed

lemma toLowerCase_eq_iff:
  assumes "list_all (\<lambda>l. \<not> (65 \<le> (of_char l :: nat) \<and> (of_char l :: nat) \<le> 90)) w"
  shows "toLowerCase s = w \<longleftrightarrow> is_casing_of w s"
  using assms
proof (induction s arbitrary: w)
  case Nil
  show ?case by (auto simp: toLowerCase_def is_casing_of_def)
next
  case (Cons c s)
  show ?case
  proof (cases w)
    case Nil
    then show ?thesis by (simp add: toLowerCase_def is_casing_of_def)
  next
    case (Cons l w')
    with Cons.prems have l: "\<not> (65 \<le> (of_char l :: nat) \<and> (of_char l :: nat) \<le> 90)"
      and w': "list_all (\<lambda>l. \<not> (65 \<le> (of_char l :: nat) \<and> (of_char l :: nat) \<le> 90)) w'"
      by simp_all
    have "toLowerCase (c # s) = l # w' \<longleftrightarrow> toLowerCase_char c = l \<and> toLowerCase s = w'"
      by (simp add: toLowerCase_def)
    also have "\<dots> \<longleftrightarrow> is_casing_of (l # w') (c # s)"
      using Cons.IH [OF w'] toLowerCase_char_eq_iff [OF l, of c]
      by (simp add: is_casing_of_def)
    finally show ?thesis using Cons by simp
  qed
qed

lemma command_words_lower:
  "list_all (\<lambda>l. \<not> (65 \<le> (of_char l :: nat) \<and> (of_char l :: nat) \<le> 90)) ''hola''"
  "list_all (\<lambda>l. \<not> (65 \<le> (of_char l :: nat) \<and> (of_char l :: nat) \<le> 90)) ''!info''"
  "list_all (\<lambda>l. \<not> (65 \<le> (of_char l :: nat) \<and> (of_char l :: nat) \<le> 90)) ''!ayuda''"
  "list_all (\<lambda>l. \<not> (65 \<le> (of_char l :: nat) \<and> (of_char l :: nat) \<le> 90)) ''!help''"
  by simp_all

lemma replies_of_append: "replies_of (xs @ ys) = replies_of xs @ replies_of ys"
  by (induction xs rule: replies_of.induct) auto

text \<open>
  C7. \<^verbatim>\<open>handleCommands\<close> never rejects, and the reply it attempts is fixed by the whole
  message text compared without regard to the case of its letters: the greeting when the
  text is \<^verbatim>\<open>hola\<close> in some casing, the dump of the message when it is \<^verbatim>\<open>!info\<close>, the list
  of commands when it is \<^verbatim>\<open>!ayuda\<close> or \<^verbatim>\<open>!help\<close>, and no reply for any other text, in
  which case the function has no effect at all. So \<^verbatim>\<open>HOLA\<close> gets the greeting and
  \<^verbatim>\<open>bye\<close> gets nothing.
\<close>

theorem handleCommands_dispatch:
  "fst (handleCommands m) = Inr ()
   \<and> replies_of (snd (handleCommands m)) =
       (if is_casing_of ''hola'' (msg_body m) then [Greeting]
        else if is_casing_of ''!info'' (msg_body m) then [InfoDump m]
        else if is_casing_of ''!ayuda'' (msg_body m) \<or> is_casing_of ''!help'' (msg_body m)
        then [HelpList]
        else [])
   \<and> (\<not> is_casing_of ''hola'' (msg_body m) \<and> \<not> is_casing_of ''!info'' (msg_body m)
       \<and> \<not> is_casing_of ''!ayuda'' (msg_body m) \<and> \<not> is_casing_of ''!help'' (msg_body m)
       \<longrightarrow> handleCommands m = (Inr (), []))
   \<and> (msg_body m = ''HOLA'' \<longrightarrow> replies_of (snd (handleCommands m)) = [Greeting])
   \<and> (msg_body m = ''bye'' \<longrightarrow> handleCommands m = (Inr (), []))"
proof -
  note words = toLowerCase_eq_iff [OF command_words_lower(1)]
    toLowerCase_eq_iff [OF command_words_lower(2)]
    toLowerCase_eq_iff [OF command_words_lower(3)]
    toLowerCase_eq_iff [OF command_words_lower(4)]
  have a: "fst (handleCommands m) = Inr ()"
    by (auto simp: handleCommands_def handleCommands_try_def msg_reply_def Let_def
             split: prod.splits sum.splits option.splits)
  have b: "replies_of (snd (handleCommands m)) =
       (if is_casing_of ''hola'' (msg_body m) then [Greeting]
        else if is_casing_of ''!info'' (msg_body m) then [InfoDump m]
        else if is_casing_of ''!ayuda'' (msg_body m) \<or> is_casing_of ''!help'' (msg_body m)
        then [HelpList]
        else [])"
    unfolding words [symmetric]
    by (auto simp: handleCommands_def handleCommands_try_def msg_reply_def Let_def
          replies_of_append split: prod.splits sum.splits option.splits)
  have c: "handleCommands m = (Inr (), [])"
    if "\<not> is_casing_of ''hola'' (msg_body m)" "\<not> is_casing_of ''!info'' (msg_body m)"
      "\<not> is_casing_of ''!ayuda'' (msg_body m)" "\<not> is_casing_of ''!help'' (msg_body m)"
    using that unfolding words [symmetric]
    by (simp add: handleCommands_def handleCommands_try_def Let_def)
  have d: "replies_of (snd (handleCommands m)) = [Greeting]" if "msg_body m = ''HOLA''"
    unfolding b using that by (simp add: is_casing_of_def)
  have e: "handleCommands m = (Inr (), [])" if "msg_body m = ''bye''"
    using that by (intro c) (simp_all add: is_casing_of_def)
  from a b c d e show ?thesis by blast
qed

theorem handleCommands_dispatch_witness:
  "is_casing_of ''hola'' ''HoLa''
   \<and> replies_of (snd (handleCommands
         \<lparr>msg_from = ''5551234567@c.us'', msg_body = ''HoLa'', msg_reply_err = None\<rparr>))
       = [Greeting]
   \<and> replies_of (snd (handleCommands
         \<lparr>msg_from = ''5551234567@c.us'', msg_body = ''HOLA'', msg_reply_err = Some ''closed''\<rparr>))
       = [Greeting]
   \<and> is_casing_of ''!help'' ''!Help''
   \<and> replies_of (snd (handleCommands
         \<lparr>msg_from = ''5551234567@c.us'', msg_body = ''!Help'', msg_reply_err = None\<rparr>))
       = [HelpList]
   \<and> \<not> is_casing_of ''hola'' ''hola '' \<and> \<not> is_casing_of ''!info'' ''hola ''
   \<and> \<not> is_casing_of ''!ayuda'' ''hola '' \<and> \<not> is_casing_of ''!help'' ''hola ''
   \<and> handleCommands \<lparr>msg_from = ''5551234567@c.us'', msg_body = ''hola '', msg_reply_err = None\<rparr>
       = (Inr (), [])
   \<and> handleCommands \<lparr>msg_from = ''5551234567@c.us'', msg_body = ''bye'', msg_reply_err = None\<rparr>
       = (Inr (), [])"
proof -
  have h: "is_casing_of ''hola'' ''HoLa''" "is_casing_of ''!help'' ''!Help''"
    "is_casing_of ''hola'' ''HOLA''"
    "\<not> is_casing_of ''hola'' ''!Help''" "\<not> is_casing_of ''!info'' ''!Help''"
    "\<not> is_casing_of ''!ayuda'' ''!Help''"
    "\<not> is_casing_of ''hola'' ''hola ''" "\<not> is_casing_of ''!info'' ''hola ''"
    "\<not> is_casing_of ''!ayuda'' ''hola ''" "\<not> is_casing_of ''!help'' ''hola ''"
    by (simp_all add: is_casing_of_def)
  have w1: "replies_of (snd (handleCommands
         \<lparr>msg_from = ''5551234567@c.us'', msg_body = ''HoLa'', msg_reply_err = None\<rparr>))
       = [Greeting]"
    using handleCommands_dispatch
         [where m = "\<lparr>msg_from = ''5551234567@c.us'', msg_body = ''HoLa'', msg_reply_err = None\<rparr>"]
      h by simp
  have w2: "replies_of (snd (handleCommands
         \<lparr>msg_from = ''5551234567@c.us'', msg_body = ''HOLA'', msg_reply_err = Some ''closed''\<rparr>))
       = [Greeting]"
    using handleCommands_dispatch
         [where m = "\<lparr>msg_from = ''5551234567@c.us'', msg_body = ''HOLA'',
                       msg_reply_err = Some ''closed''\<rparr>"]
      h by simp
  have w3: "replies_of (snd (handleCommands
         \<lparr>msg_from = ''5551234567@c.us'', msg_body = ''!Help'', msg_reply_err = None\<rparr>))
       = [HelpList]"
    using handleCommands_dispatch
         [where m = "\<lparr>msg_from = ''5551234567@c.us'', msg_body = ''!Help'', msg_reply_err = None\<rparr>"]
      h by simp
  have w4: "handleCommands
         \<lparr>msg_from = ''5551234567@c.us'', msg_body = ''hola '', msg_reply_err = None\<rparr>
       = (Inr (), [])"
    using handleCommands_dispatch
         [where m = "\<lparr>msg_from = ''5551234567@c.us'', msg_body = ''hola '', msg_reply_err = None\<rparr>"]
      h by simp
  have w5: "handleCommands
         \<lparr>msg_from = ''5551234567@c.us'', msg_body = ''bye'', msg_reply_err = None\<rparr>
       = (Inr (), [])"
    using handleCommands_dispatch
         [where m = "\<lparr>msg_from = ''5551234567@c.us'', msg_body = ''bye'', msg_reply_err = None\<rparr>"]
    by simp
  show ?thesis using h w1 w2 w3 w4 w5 by simp
qed

section \<open>Properties of the outbound operations\<close>

text \<open>
  C3. \<^verbatim>\<open>sendMessage\<close> settles with a boolean in every state, never with a rejection.
  Before the client is ready it reports \<^verbatim>\<open>false\<close>, logs that the client is not ready
  and makes no call on the session. When the client is ready it makes the one call
  \<^verbatim>\<open>client.sendMessage(to, message)\<close> and reports \<^verbatim>\<open>true\<close> if the session resolves it,
  and \<^verbatim>\<open>false\<close> if the session rejects it, the rejection being logged.
\<close>

theorem sendMessage_reports_boolean:
  "(\<not> isReady w \<longrightarrow>
      sendMessage api w to_id message
        = (Inr False, w, [ConsoleError (error_mark @ '' WhatsApp client not ready'') None]))
   \<and> (fst (sendMessage api w to_id message) = Inr True
       \<or> fst (sendMessage api w to_id message) = Inr False)
   \<and> (isReady w \<and> client w = Some c \<longrightarrow>
        (case session_sendMessage api c to_id message of
           (None, c') \<Rightarrow>
             sendMessage api w to_id message
               = (Inr True, w\<lparr>client := Some c'\<rparr>,
                  [ClientSend to_id message, ConsoleLog (ok_mark @ '' Message sent to '' @ to_id)])
         | (Some reason, c') \<Rightarrow>
             sendMessage api w to_id message
               = (Inr False, w\<lparr>client := Some c'\<rparr>,
                  [ClientSend to_id message,
                   ConsoleError (error_mark @ '' Error sending message to '' @ to_id @ '':'')
                     (Some (TransportError reason))])))"
  by (auto simp: sendMessage_def sendMessage_try_def client_sendMessage_def
           split: prod.splits option.splits sum.splits)

theorem sendMessage_reports_boolean_witness:
  "\<not> isReady example_not_ready
   \<and> sendMessage example_session example_not_ready ''S1'' ''hi''
       = (Inr False, example_not_ready, [ConsoleError (error_mark @ '' WhatsApp client not ready'') None])
   \<and> isReady example_ready \<and> client example_ready = Some 0
   \<and> fst (sendMessage example_session example_ready ''S1'' ''hi'') = Inr True
   \<and> sendMessage example_session example_ready ''S2'' ''hi''
       = (Inr False, example_ready\<lparr>client := Some 1\<rparr>,
          [ClientSend ''S2'' ''hi'',
           ConsoleError (error_mark @ '' Error sending message to S2:'') (Some (TransportError ''offline''))])"
proof -
  have h: "\<not> isReady example_not_ready" by (simp add: example_not_ready_def)
  have h1: "isReady example_ready \<and> client example_ready = Some 0"
    by (simp add: example_ready_def)
  have s1: "session_sendMessage example_session 0 ''S1'' ''hi'' = (None, 1)"
    and s2: "session_sendMessage example_session 0 ''S2'' ''hi'' = (Some ''offline'', 1)"
    by (simp_all add: example_session_def)
  from sendMessage_reports_boolean
         [where w = example_not_ready and api = example_session and to_id = "''S1''"
            and message = "''hi''" and c = 0]
    sendMessage_reports_boolean
         [where w = example_ready and api = example_session and to_id = "''S1''"
            and message = "''hi''" and c = 0]
    sendMessage_reports_boolean
         [where w = example_ready and api = example_session and to_id = "''S2''"
            and message = "''hi''" and c = 0]
  show ?thesis using h h1 by (simp add: s1 s2)
qed

lemma sends_of_append: "sends_of (xs @ ys) = sends_of xs @ sends_of ys"
  by (induction xs rule: sends_of.induct) auto

lemma loop_success:
  "fst (broadcast_loop api message subs (s, f, Some c, tr)) =
     s + length (filter id (session_outcomes api c message (map whatsapp_id subs)))"
  by (induction subs arbitrary: s f c tr)
     (auto simp: client_sendMessage_def split: prod.splits option.splits)

lemma loop_failed:
  "fst (snd (broadcast_loop api message subs (s, f, Some c, tr))) =
     f + length (filter Not (session_outcomes api c message (map whatsapp_id subs)))"
  by (induction subs arbitrary: s f c tr)
     (auto simp: client_sendMessage_def split: prod.splits option.splits)

lemma loop_sends:
  "sends_of (snd (snd (snd (broadcast_loop api message subs (s, f, Some c, tr))))) =
     sends_of tr @ map (\<lambda>x. (whatsapp_id x, message)) subs"
  by (induction subs arbitrary: s f c tr)
     (auto simp: client_sendMessage_def sends_of_append split: prod.splits option.splits)

lemma loop_reads:
  "count_list (snd (snd (snd (broadcast_loop api message subs (s, f, cl, tr)))))
     SqlSelectSubscribers = count_list tr SqlSelectSubscribers"
  by (induction subs arbitrary: s f cl tr)
     (auto simp: client_sendMessage_def split: prod.splits option.splits)

lemma loop_inits:
  "count_list (snd (snd (snd (broadcast_loop api message subs (s, f, cl, tr)))))
     ClientInitialize = count_list tr ClientInitialize"
  by (induction subs arbitrary: s f cl tr)
     (auto simp: client_sendMessage_def split: prod.splits option.splits)

lemma loop_trace_extends:
  "\<exists>more. snd (snd (snd (broadcast_loop api message subs (s, f, cl, tr)))) = tr @ more"
proof (induction subs arbitrary: s f cl tr)
  case Nil
  show ?case by simp
next
  case (Cons x subs)
  obtain e cl' tr' where step: "client_sendMessage api cl (whatsapp_id x) message = (e, cl', tr')"
    by (cases "client_sendMessage api cl (whatsapp_id x) message")
  show ?case
  proof (cases e)
    case None
    from Cons.IH [of "s + 1" f cl'
        "tr @ tr' @ [ConsoleLog (ok_mark @ '' Broadcast message sent to '' @ whatsapp_id x)]"]
    show ?thesis using step None by auto
  next
    case (Some err)
    from Cons.IH [of s "f + 1" cl'
        "tr @ tr' @ [ConsoleError (error_mark @ '' Error sending broadcast to '' @ whatsapp_id x @ '':'')
                       (Some err)]"]
    show ?thesis using step Some by auto
  qed
qed

lemma loop_trace_prefix:
  "take (length tr) (snd (snd (snd (broadcast_loop api message subs (s, f, cl, tr))))) = tr"
  using loop_trace_extends [of api message subs s f cl tr] by auto

lemma outcomes_length: "length (session_outcomes api c message ids) = length ids"
  by (induction ids arbitrary: c) (auto split: prod.splits)

lemma filter_id_Not: "length (filter id bs) + length (filter Not bs) = length bs"
  by (induction bs) auto

lemma loop_total:
  "fst (broadcast_loop api message subs (s, f, cl, tr))
     + fst (snd (broadcast_loop api message subs (s, f, cl, tr))) = s + f + length subs"
  by (induction subs arbitrary: s f cl tr)
     (auto simp: client_sendMessage_def split: prod.splits option.splits)

text \<open>
  C1. A broadcast with the client ready and the subscribers read without error returns
  a tally, not a rejection: the first effect is the one read of the table, and no other
  read follows; each row read adds one to exactly one of the two counters, so they add
  up to the number of rows, and an empty table gives \<open>{success: 0, failed: 0}\<close>. With a
  session behind the client, the sends that reach it are one per row, to that row's
  identity, in the order of the rows, and the tally counts the sends the session
  resolved as \<open>success\<close> and those it rejected as \<open>failed\<close>: two rows of which the
  session resolves the first and rejects the second give \<open>{success: 1, failed: 1}\<close>
  with both sends made.
\<close>

theorem broadcast_ready_attempts_every_subscriber:
  assumes "isReady w"
  shows "case broadcastMessage api w (Some t) None message of
           (r, w', tr) \<Rightarrow>
             (case r of
                Inl _ \<Rightarrow> False
              | Inr ta \<Rightarrow> success ta + failed ta = length (subscribers t))
             \<and> take 1 tr = [SqlSelectSubscribers]
             \<and> count_list tr SqlSelectSubscribers = 1
             \<and> (subscribers t = [] \<longrightarrow> r = Inr \<lparr>success = 0, failed = 0\<rparr>)
             \<and> (client w = Some c \<longrightarrow>
                  r = Inr \<lparr>success = length (filter id
                            (session_outcomes api c message (map whatsapp_id (subscribers t)))),
                          failed = length (filter Not
                            (session_outcomes api c message (map whatsapp_id (subscribers t))))\<rparr>
                  \<and> sends_of tr = map (\<lambda>s. (whatsapp_id s, message)) (subscribers t))
             \<and> (client w = Some c \<and> subscribers t = [s1, s2]
                   \<and> session_sendMessage api c (whatsapp_id s1) message = (None, c1)
                   \<and> session_sendMessage api c1 (whatsapp_id s2) message = (Some reason, c2)
                   \<longrightarrow> r = Inr \<lparr>success = 1, failed = 1\<rparr>
                       \<and> sends_of tr = [(whatsapp_id s1, message), (whatsapp_id s2, message)])"
proof -
  let ?subs = "subscribers t"
  let ?L = "broadcast_loop api message ?subs (0, 0, client w, [SqlSelectSubscribers])"
  obtain s f cl tr' where L: "?L = (s, f, cl, tr')" by (cases ?L)
  have bm: "broadcastMessage api w (Some t) None message =
              (Inr \<lparr>success = s, failed = f\<rparr>, w\<lparr>client := cl\<rparr>, tr')"
    using assms L
    by (simp add: broadcastMessage_def broadcastMessage_try_def getAllSubscribers_def)
  have total: "s + f = length ?subs"
    using loop_total [of api message ?subs 0 0 "client w" "[SqlSelectSubscribers]"] L by simp
  have reads: "count_list tr' SqlSelectSubscribers = 1"
    using loop_reads [of api message ?subs 0 0 "client w" "[SqlSelectSubscribers]"] L by simp
  have first: "take 1 tr' = [SqlSelectSubscribers]"
    using loop_trace_prefix [of "[SqlSelectSubscribers]" api message ?subs 0 0 "client w"] L
    by simp
  have empty: "s = 0 \<and> f = 0" if "?subs = []"
    using total that by simp
  have s: "s = length (filter id (session_outcomes api c message (map whatsapp_id ?subs)))"
    if "client w = Some c"
    using loop_success [of api message ?subs 0 0 c "[SqlSelectSubscribers]"] L that by simp
  have f: "f = length (filter Not (session_outcomes api c message (map whatsapp_id ?subs)))"
    if "client w = Some c"
    using loop_failed [of api message ?subs 0 0 c "[SqlSelectSubscribers]"] L that by simp
  have sends: "sends_of tr' = map (\<lambda>s. (whatsapp_id s, message)) ?subs"
    if "client w = Some c"
    using loop_sends [of api message ?subs 0 0 c "[SqlSelectSubscribers]"] L that by simp
  have two: "s = 1 \<and> f = 1
             \<and> sends_of tr' = [(whatsapp_id s1, message), (whatsapp_id s2, message)]"
    if "client w = Some c" "?subs = [s1, s2]"
      and "session_sendMessage api c (whatsapp_id s1) message = (None, c1)"
      and "session_sendMessage api c1 (whatsapp_id s2) message = (Some reason, c2)"
    using s [OF that(1)] f [OF that(1)] sends [OF that(1)] that(2-4) by simp
  show ?thesis
    unfolding bm prod.case sum.case tally.simps
    using total reads first empty s f sends two by blast
qed

theorem broadcast_ready_attempts_every_subscriber_witness:
  "isReady example_ready \<and> client example_ready = Some 0
   \<and> subscribers empty_tables = []
   \<and> fst (broadcastMessage example_session example_ready (Some empty_tables) None ''news'')
       = Inr \<lparr>success = 0, failed = 0\<rparr>
   \<and> subscribers example_tables = [example_subscriber ''S1'', example_subscriber ''S2'']
   \<and> session_sendMessage example_session 0 ''S1'' ''news'' = (None, 1)
   \<and> session_sendMessage example_session 1 ''S2'' ''news'' = (Some ''offline'', 2)
   \<and> fst (broadcastMessage example_session example_ready (Some example_tables) None ''news'')
       = Inr \<lparr>success = 1, failed = 1\<rparr>
   \<and> sends_of (snd (snd
         (broadcastMessage example_session example_ready (Some example_tables) None ''news'')))
       = [(''S1'', ''news''), (''S2'', ''news'')]"
proof -
  have h1: "isReady example_ready" and h2: "client example_ready = Some 0"
    by (simp_all add: example_ready_def)
  have h3: "subscribers example_tables = [example_subscriber ''S1'', example_subscriber ''S2'']"
    by (simp add: example_tables_def)
  have h4: "session_sendMessage example_session 0 (whatsapp_id (example_subscriber ''S1'')) ''news''
              = (None, 1)"
    by (simp add: example_session_def example_subscriber_def)
  have h5: "session_sendMessage example_session 1 (whatsapp_id (example_subscriber ''S2'')) ''news''
              = (Some ''offline'', 2)"
    by (simp add: example_session_def example_subscriber_def)
  have ids: "whatsapp_id (example_subscriber ''S1'') = ''S1''"
    "whatsapp_id (example_subscriber ''S2'') = ''S2''"
    by (simp_all add: example_subscriber_def)
  have h0: "subscribers empty_tables = []" by (simp add: empty_tables_def)
  have none: "fst (broadcastMessage example_session example_ready (Some empty_tables) None
                     ''news'') = Inr \<lparr>success = 0, failed = 0\<rparr>"
  proof -
    obtain r w' tr where
      e: "broadcastMessage example_session example_ready (Some empty_tables) None ''news''
            = (r, w', tr)"
      by (cases "broadcastMessage example_session example_ready (Some empty_tables) None
                   ''news''")
    from broadcast_ready_attempts_every_subscriber
           [OF h1, where api = example_session and t = empty_tables and message = "''news''"
              and c = 0]
      h0
    have "r = Inr \<lparr>success = 0, failed = 0\<rparr>"
      unfolding e by simp
    then show ?thesis by (simp add: e)
  qed
  from broadcast_ready_attempts_every_subscriber
         [OF h1, where api = example_session and t = example_tables and message = "''news''"
            and c = 0
            and ?s1.0 = "example_subscriber ''S1''" and ?s2.0 = "example_subscriber ''S2''"
            and ?c1.0 = 1 and reason = "''offline''" and ?c2.0 = 2]
  show ?thesis
    using h0 none h1 h2 h3 h4 h5 ids by (simp split: prod.splits)
qed

text \<open>
  C2. A broadcast before the client is ready returns \<open>{success: 0, failed: 0}\<close> as its
  value, not as a rejection, whatever the store holds or would answer: its only effect
  is the console line, so the subscribers are not read and nothing is sent. The value
  is the one a ready client returns for an empty subscribers table.
\<close>

theorem broadcast_not_ready_reports_empty_tally:
  assumes "\<not> isReady w"
  shows "broadcastMessage api w db err message
           = (Inr \<lparr>success = 0, failed = 0\<rparr>, w, [ConsoleError (error_mark @ '' WhatsApp client not ready'') None])
         \<and> count_list (snd (snd (broadcastMessage api w db err message))) SqlSelectSubscribers = 0
         \<and> sends_of (snd (snd (broadcastMessage api w db err message))) = []
         \<and> (isReady w0 \<and> subscribers t0 = [] \<longrightarrow>
              fst (broadcastMessage api w db err message)
                = fst (broadcastMessage api0 w0 (Some t0) None message0))"
proof -
  have a: "broadcastMessage api w db err message
           = (Inr \<lparr>success = 0, failed = 0\<rparr>, w, [ConsoleError (error_mark @ '' WhatsApp client not ready'') None])"
    using assms by (simp add: broadcastMessage_def broadcastMessage_try_def)
  have b: "fst (broadcastMessage api0 w0 (Some t0) None message0) = Inr \<lparr>success = 0, failed = 0\<rparr>"
    if "isReady w0" "subscribers t0 = []"
    using that by (simp add: broadcastMessage_def broadcastMessage_try_def getAllSubscribers_def)
  show ?thesis using b by (simp add: a)
qed

theorem broadcast_not_ready_reports_empty_tally_witness:
  "\<not> isReady example_not_ready \<and> isReady example_ready \<and> subscribers empty_tables = []
   \<and> broadcastMessage example_session example_not_ready (Some example_tables) None ''news''
       = (Inr \<lparr>success = 0, failed = 0\<rparr>, example_not_ready,
          [ConsoleError (error_mark @ '' WhatsApp client not ready'') None])
   \<and> fst (broadcastMessage example_session example_not_ready (Some example_tables) None ''news'')
       = fst (broadcastMessage example_session example_ready (Some empty_tables) None ''news'')"
proof -
  have h: "\<not> isReady example_not_ready" by (simp add: example_not_ready_def)
  have h0: "isReady example_ready \<and> subscribers empty_tables = []"
    by (simp add: example_ready_def empty_tables_def)
  from broadcast_not_ready_reports_empty_tally
         [OF h, where api = example_session and db = "Some example_tables" and err = None
            and message = "''news''" and ?w0.0 = example_ready and ?t0.0 = empty_tables
            and ?api0.0 = example_session and ?message0.0 = "''news''"]
  show ?thesis using h h0 by blast
qed

lemma loop_no_catch_all_line:
  "ConsoleError (error_mark @ '' Error broadcasting message:'') x \<notin> set tr \<Longrightarrow>
   ConsoleError (error_mark @ '' Error broadcasting message:'') x
     \<notin> set (snd (snd (snd (broadcast_loop api message subs (s, f, cl, tr)))))"
  by (induction subs arbitrary: s f cl tr)
     (auto simp: client_sendMessage_def split: prod.splits option.splits)

text \<open>
  C10. A broadcast with the client ready whose read of the subscribers fails (no
  connection, or an error from the engine) returns \<open>{success: 0, failed: 0}\<close> as its
  value, after the catch-all has logged the failure, and sends nothing. The value is the
  one returned before the client is ready and the one returned for an empty subscribers
  table. In every state, a broadcast whose catch-all has run returns that value.
\<close>

theorem broadcast_read_failure_reports_empty_tally:
  assumes "isReady w" and "fst (getAllSubscribers db err) = Inl e"
  shows "broadcastMessage api w db err message
           = (Inr \<lparr>success = 0, failed = 0\<rparr>, w,
              snd (getAllSubscribers db err)
                @ [ConsoleError (error_mark @ '' Error broadcasting message:'') (Some e)])
         \<and> sends_of (snd (snd (broadcastMessage api w db err message))) = []
         \<and> (\<not> isReady w1 \<longrightarrow>
              fst (broadcastMessage api w db err message)
                = fst (broadcastMessage api1 w1 db1 err1 message1))
         \<and> (isReady w0 \<and> subscribers t0 = [] \<longrightarrow>
              fst (broadcastMessage api w db err message)
                = fst (broadcastMessage api0 w0 (Some t0) None message0))
         \<and> (ConsoleError (error_mark @ '' Error broadcasting message:'') x
               \<in> set (snd (snd (broadcastMessage api2 w2 db2 err2 message2))) \<longrightarrow>
              fst (broadcastMessage api2 w2 db2 err2 message2)
                = Inr \<lparr>success = 0, failed = 0\<rparr>)"
proof -
  obtain tr where g: "getAllSubscribers db err = (Inl e, tr)"
    using assms(2) by (cases "getAllSubscribers db err") simp
  have tr: "sends_of tr = []"
    using g by (auto simp: getAllSubscribers_def split: option.splits)
  have a: "broadcastMessage api w db err message
           = (Inr \<lparr>success = 0, failed = 0\<rparr>, w,
              tr @ [ConsoleError (error_mark @ '' Error broadcasting message:'') (Some e)])"
    using assms(1) g by (simp add: broadcastMessage_def broadcastMessage_try_def)
  have b: "fst (broadcastMessage api1 w1 db1 err1 message1) = Inr \<lparr>success = 0, failed = 0\<rparr>"
    if "\<not> isReady w1"
    using that by (simp add: broadcastMessage_def broadcastMessage_try_def)
  have c: "fst (broadcastMessage api0 w0 (Some t0) None message0) = Inr \<lparr>success = 0, failed = 0\<rparr>"
    if "isReady w0" "subscribers t0 = []"
    using that by (simp add: broadcastMessage_def broadcastMessage_try_def getAllSubscribers_def)
  have d: "fst (broadcastMessage api2 w2 db2 err2 message2) = Inr \<lparr>success = 0, failed = 0\<rparr>"
    if line: "ConsoleError (error_mark @ '' Error broadcasting message:'') x
                \<in> set (snd (snd (broadcastMessage api2 w2 db2 err2 message2)))"
  proof (cases "isReady w2")
    case False
    then show ?thesis by (simp add: broadcastMessage_def broadcastMessage_try_def)
  next
    case True
    obtain r2 tr2 where g2: "getAllSubscribers db2 err2 = (r2, tr2)"
      by (cases "getAllSubscribers db2 err2")
    show ?thesis
    proof (cases r2)
      case (Inl e2)
      then show ?thesis
        using True g2 by (simp add: broadcastMessage_def broadcastMessage_try_def)
    next
      case (Inr rows)
      have tr2: "ConsoleError (error_mark @ '' Error broadcasting message:'') x \<notin> set tr2"
        using g2 Inr by (auto simp: getAllSubscribers_def split: option.splits)
      obtain s f cl tr' where
        L: "broadcast_loop api2 message2 rows (0, 0, client w2, tr2) = (s, f, cl, tr')"
        by (cases "broadcast_loop api2 message2 rows (0, 0, client w2, tr2)")
      have "ConsoleError (error_mark @ '' Error broadcasting message:'') x \<notin> set tr'"
        using loop_no_catch_all_line [OF tr2, of api2 message2 rows 0 0 "client w2"] L by simp
      moreover have "snd (snd (broadcastMessage api2 w2 db2 err2 message2)) = tr'"
        using True g2 Inr L by (simp add: broadcastMessage_def broadcastMessage_try_def)
      ultimately show ?thesis using line by simp
    qed
  qed
  show ?thesis using b c d tr by (simp add: a g sends_of_append)
qed

theorem broadcast_read_failure_reports_empty_tally_witness:
  "isReady example_ready
   \<and> fst (getAllSubscribers (Some example_tables) (Some ''disk I/O error''))
       = Inl (StoreError ''disk I/O error'')
   \<and> \<not> isReady example_not_ready \<and> subscribers empty_tables = []
   \<and> fst (broadcastMessage example_session example_ready (Some example_tables)
             (Some ''disk I/O error'') ''news'')
       = Inr \<lparr>success = 0, failed = 0\<rparr>
   \<and> fst (broadcastMessage example_session example_ready (Some example_tables)
             (Some ''disk I/O error'') ''news'')
       = fst (broadcastMessage example_session example_not_ready (Some example_tables) None ''news'')
   \<and> fst (broadcastMessage example_session example_ready (Some example_tables)
             (Some ''disk I/O error'') ''news'')
       = fst (broadcastMessage example_session example_ready (Some empty_tables) None ''news'')
   \<and> ConsoleError (error_mark @ '' Error broadcasting message:'') (Some (StoreError ''disk I/O error''))
       \<in> set (snd (snd (broadcastMessage example_session example_ready (Some example_tables)
                          (Some ''disk I/O error'') ''news'')))"
proof -
  have h1: "isReady example_ready" by (simp add: example_ready_def)
  have h2: "fst (getAllSubscribers (Some example_tables) (Some ''disk I/O error''))
              = Inl (StoreError ''disk I/O error'')"
    by (simp add: getAllSubscribers_def)
  have h3: "\<not> isReady example_not_ready \<and> subscribers empty_tables = []"
    by (simp add: example_not_ready_def empty_tables_def)
  note T = broadcast_read_failure_reports_empty_tally
         [OF h1 h2, where api = example_session and message = "''news''"
            and ?w1.0 = example_not_ready and ?api1.0 = example_session
            and ?db1.0 = "Some example_tables" and ?err1.0 = None and ?message1.0 = "''news''"
            and ?w0.0 = example_ready and ?t0.0 = empty_tables and ?api0.0 = example_session
            and ?message0.0 = "''news''"
            and ?api2.0 = example_session and ?w2.0 = example_ready
            and ?db2.0 = "Some example_tables" and ?err2.0 = "Some ''disk I/O error''"
            and ?message2.0 = "''news''" and x = "Some (StoreError ''disk I/O error'')"]
  from T have whole:
    "broadcastMessage example_session example_ready (Some example_tables)
       (Some ''disk I/O error'') ''news''
       = (Inr \<lparr>success = 0, failed = 0\<rparr>, example_ready,
          snd (getAllSubscribers (Some example_tables) (Some ''disk I/O error''))
            @ [ConsoleError (error_mark @ '' Error broadcasting message:'')
                 (Some (StoreError ''disk I/O error''))])"
    by (rule conjunct1)
  have res0: "fst (broadcastMessage example_session example_ready (Some example_tables)
                      (Some ''disk I/O error'') ''news'') = Inr \<lparr>success = 0, failed = 0\<rparr>"
    by (simp add: whole)
  have line: "ConsoleError (error_mark @ '' Error broadcasting message:'') (Some (StoreError ''disk I/O error''))
                \<in> set (snd (snd (broadcastMessage example_session example_ready
                                   (Some example_tables) (Some ''disk I/O error'') ''news'')))"
    by (simp add: whole)
  from T show ?thesis using h1 h2 h3 res0 line by blast
qed

section \<open>Properties of the session events\<close>

lemma addSubscriber_no_init:
  "count_list (snd (snd (addSubscriber db err now wid p m))) ClientInitialize = 0"
  by (simp add: addSubscriber_def split: option.splits)

lemma logMessage_no_init:
  "count_list (snd (snd (logMessage db err now wid s))) ClientInitialize = 0"
  by (simp add: logMessage_def split: option.splits)

lemma handleCommands_no_init: "count_list (snd (handleCommands m)) ClientInitialize = 0"
  by (auto simp: handleCommands_def handleCommands_try_def msg_reply_def Let_def
           split: prod.splits sum.splits option.splits)

lemma on_message_no_init: "count_list (snd (on_message db env m)) ClientInitialize = 0"
proof -
  obtain r1 db1 tr1 where
    a: "addSubscriber db (add_err env) (add_now env) (msg_from m) (phoneNumber_of (msg_from m))
          (msg_body m) = (r1, db1, tr1)"
    by (cases "addSubscriber db (add_err env) (add_now env) (msg_from m)
                 (phoneNumber_of (msg_from m)) (msg_body m)")
  obtain r2 db2 tr2 where
    l: "logMessage db1 (log_err env) (log_now env) (msg_from m) (msg_body m) = (r2, db2, tr2)"
    by (cases "logMessage db1 (log_err env) (log_now env) (msg_from m) (msg_body m)")
  obtain r3 tr3 where h: "handleCommands m = (r3, tr3)"
    by (cases "handleCommands m")
  have t1: "count_list tr1 ClientInitialize = 0"
    using addSubscriber_no_init
            [of db "add_err env" "add_now env" "msg_from m" "phoneNumber_of (msg_from m)"
               "msg_body m"] a
    by simp
  have t2: "count_list tr2 ClientInitialize = 0"
    using logMessage_no_init [of db1 "log_err env" "log_now env" "msg_from m" "msg_body m"] l
    by simp
  have t3: "count_list tr3 ClientInitialize = 0"
    using handleCommands_no_init [of m] h by simp
  show ?thesis
    using a l h t1 t2 t3
    by (cases r1; cases r2; cases r3) (simp_all add: on_message_def Let_def)
qed

lemma on_disconnected_not_ready: "\<not> isReady (fst (on_disconnected api w reason))"
  by (simp add: on_disconnected_def Let_def split: option.splits prod.splits init_outcome.splits)

lemma on_disconnected_inits:
  "client w = Some c \<Longrightarrow>
   count_list (snd (on_disconnected api w reason)) ClientInitialize = 1
   \<and> take 2 (snd (on_disconnected api w reason))
       = [ConsoleLog (error_mark @ '' Bot desconectado: '' @ reason), ClientInitialize]
   \<and> client (fst (on_disconnected api w reason)) = Some (snd (session_initialize api c))"
  by (simp add: on_disconnected_def Let_def numeral_2_eq_2
           split: option.splits prod.splits init_outcome.splits)

lemma emit_other_no_init:
  "\<not> is_disconnect ev \<Longrightarrow> count_list (snd (emit api st ev)) ClientInitialize = 0"
  by (cases st; cases ev)
     (simp_all add: on_qr_def on_ready_def on_auth_failure_def on_message_no_init
        case_prod_unfold)

lemma emit_keeps_client:
  "client (fst st) \<noteq> None \<Longrightarrow> client (fst (fst (emit api st ev))) \<noteq> None"
  by (cases st; cases ev)
     (auto simp: on_ready_def on_disconnected_def Let_def
           split: prod.splits option.splits init_outcome.splits)

lemma emit_disconnect_inits:
  "client (fst st) \<noteq> None \<Longrightarrow> is_disconnect ev \<Longrightarrow>
   count_list (snd (emit api st ev)) ClientInitialize = 1"
  by (cases st; cases ev) (auto simp: case_prod_unfold on_disconnected_inits)

lemma emit_all_inits:
  "client (fst st) \<noteq> None \<Longrightarrow>
   count_list (snd (emit_all api st evs)) ClientInitialize = length (filter is_disconnect evs)"
proof (induction evs arbitrary: st)
  case Nil
  show ?case by simp
next
  case (Cons ev evs)
  obtain st' tr where e: "emit api st ev = (st', tr)" by (cases "emit api st ev")
  obtain st'' tr' where r: "emit_all api st' evs = (st'', tr')" by (cases "emit_all api st' evs")
  have c': "client (fst st') \<noteq> None"
    using emit_keeps_client [OF Cons.prems, of api ev] e by simp
  have rest: "count_list tr' ClientInitialize = length (filter is_disconnect evs)"
    using Cons.IH [OF c'] r by simp
  have this_one: "count_list tr ClientInitialize = (if is_disconnect ev then 1 else 0)"
    using emit_disconnect_inits [OF Cons.prems, of ev api] emit_other_no_init [of ev api st] e
    by (cases "is_disconnect ev") simp_all
  show ?case
    using e r rest this_one by simp
qed

lemma sendMessage_no_init:
  "count_list (snd (snd (sendMessage api w to_id message))) ClientInitialize = 0"
  by (auto simp: sendMessage_def sendMessage_try_def client_sendMessage_def
           split: prod.splits option.splits sum.splits)

lemma broadcastMessage_no_init:
  "count_list (snd (snd (broadcastMessage api w db err message))) ClientInitialize = 0"
proof (cases "isReady w")
  case False
  then show ?thesis by (simp add: broadcastMessage_def broadcastMessage_try_def)
next
  case True
  obtain r tr where g: "getAllSubscribers db err = (r, tr)"
    by (cases "getAllSubscribers db err")
  have tr: "count_list tr ClientInitialize = 0"
    using g by (auto simp: getAllSubscribers_def split: option.splits)
  show ?thesis
  proof (cases r)
    case (Inl e)
    then show ?thesis
      using True g tr by (simp add: broadcastMessage_def broadcastMessage_try_def)
  next
    case (Inr rows)
    obtain s f cl tr' where
      L: "broadcast_loop api message rows (0, 0, client w, tr) = (s, f, cl, tr')"
      by (cases "broadcast_loop api message rows (0, 0, client w, tr)")
    have "count_list tr' ClientInitialize = 0"
      using loop_inits [of api message rows 0 0 "client w" tr] L tr by simp
    then show ?thesis
      using True g Inr L by (simp add: broadcastMessage_def broadcastMessage_try_def)
  qed
qed

text \<open>
  C9. The \<^verbatim>\<open>disconnected\<close> listener always leaves the client not ready, and with a
  client in place it calls \<^verbatim>\<open>client.initialize()\<close> exactly once, right after logging the
  disconnection, whatever that call answers. No other listener calls it, nor do
  \<^verbatim>\<open>sendMessage\<close> and \<^verbatim>\<open>broadcastMessage\<close>. So over any sequence of events the number of
  calls is the number of \<^verbatim>\<open>disconnected\<close> events in it, however many there are.
\<close>

theorem disconnect_reinitializes_exactly_once:
  "\<not> isReady (fst (on_disconnected api w reason))
   \<and> (client w = Some c \<longrightarrow>
        count_list (snd (on_disconnected api w reason)) ClientInitialize = 1
        \<and> take 2 (snd (on_disconnected api w reason))
            = [ConsoleLog (error_mark @ '' Bot desconectado: '' @ reason), ClientInitialize]
        \<and> client (fst (on_disconnected api w reason)) = Some (snd (session_initialize api c)))
   \<and> (\<not> is_disconnect ev \<longrightarrow> count_list (snd (emit api st ev)) ClientInitialize = 0)
   \<and> (client (fst st) \<noteq> None \<longrightarrow>
        count_list (snd (emit_all api st evs)) ClientInitialize
          = length (filter is_disconnect evs))
   \<and> count_list (snd (snd (sendMessage api w to_id message))) ClientInitialize = 0
   \<and> count_list (snd (snd (broadcastMessage api w db err message))) ClientInitialize = 0"
  using on_disconnected_not_ready [of api w reason] on_disconnected_inits [of w c api reason]
    emit_other_no_init [of ev api st] emit_all_inits [of st api evs]
    sendMessage_no_init [of api w to_id message] broadcastMessage_no_init [of api w db err message]
  by blast

theorem disconnect_reinitializes_exactly_once_witness:
  "client example_ready = Some 0
   \<and> on_disconnected example_session example_ready ''NAVIGATION''
       = (\<lparr>client = Some 0, isReady = False\<rparr>,
          [ConsoleLog (error_mark @ '' Bot desconectado: NAVIGATION''), ClientInitialize])
   \<and> count_list (snd (on_disconnected example_session example_ready ''NAVIGATION''))
       ClientInitialize = 1
   \<and> \<not> isReady (fst (on_disconnected example_session example_ready ''NAVIGATION''))
   \<and> \<not> is_disconnect EvReady
   \<and> count_list (snd (emit example_session (example_not_ready, Some empty_tables) EvReady))
       ClientInitialize = 0
   \<and> client (fst (example_ready, Some empty_tables)) \<noteq> None
   \<and> count_list
       (snd (emit_all example_session (example_ready, Some empty_tables)
               [EvDisconnected ''NAVIGATION'', EvReady,
                EvMessage \<lparr>msg_from = ''5551234567@c.us'', msg_body = ''hola'',
                           msg_reply_err = None\<rparr>
                          \<lparr>add_err = None, add_now = 1, log_err = None, log_now = 1\<rparr>,
                EvDisconnected ''LOGOUT'', EvDisconnected ''LOGOUT'']))
       ClientInitialize = 3"
proof -
  have h1: "client example_ready = Some 0" by (simp add: example_ready_def)
  have h2: "\<not> is_disconnect EvReady" by simp
  have h3: "client (fst (example_ready, Some empty_tables)) \<noteq> None"
    by (simp add: example_ready_def)
  have d: "on_disconnected example_session example_ready ''NAVIGATION''
       = (\<lparr>client = Some 0, isReady = False\<rparr>,
          [ConsoleLog (error_mark @ '' Bot desconectado: NAVIGATION''), ClientInitialize])"
    by (simp add: on_disconnected_def example_session_def example_ready_def)
  have n: "length (filter is_disconnect
               [EvDisconnected ''NAVIGATION'', EvReady,
                EvMessage \<lparr>msg_from = ''5551234567@c.us'', msg_body = ''hola'',
                           msg_reply_err = None\<rparr>
                          \<lparr>add_err = None, add_now = 1, log_err = None, log_now = 1\<rparr>,
                EvDisconnected ''LOGOUT'', EvDisconnected ''LOGOUT'']) = 3"
    by simp
  note T = disconnect_reinitializes_exactly_once
         [where api = example_session and w = example_ready and reason = "''NAVIGATION''"
            and c = 0 and ev = EvReady and st = "(example_not_ready, Some empty_tables)"]
  note U = disconnect_reinitializes_exactly_once
         [where api = example_session and st = "(example_ready, Some empty_tables)"
            and evs = "[EvDisconnected ''NAVIGATION'', EvReady,
                EvMessage \<lparr>msg_from = ''5551234567@c.us'', msg_body = ''hola'',
                           msg_reply_err = None\<rparr>
                          \<lparr>add_err = None, add_now = 1, log_err = None, log_now = 1\<rparr>,
                EvDisconnected ''LOGOUT'', EvDisconnected ''LOGOUT'']"]
  have t: "count_list (snd (emit example_session (example_not_ready, Some empty_tables) EvReady))
             ClientInitialize = 0"
    using T h2 by blast
  have u: "count_list
       (snd (emit_all example_session (example_ready, Some empty_tables)
               [EvDisconnected ''NAVIGATION'', EvReady,
                EvMessage \<lparr>msg_from = ''5551234567@c.us'', msg_body = ''hola'',
                           msg_reply_err = None\<rparr>
                          \<lparr>add_err = None, add_now = 1, log_err = None, log_now = 1\<rparr>,
                EvDisconnected ''LOGOUT'', EvDisconnected ''LOGOUT'']))
       ClientInitialize = 3"
    using U h3 n by metis
  have once: "count_list (snd (on_disconnected example_session example_ready ''NAVIGATION''))
                ClientInitialize = 1"
    using T h1 by blast
  have off: "\<not> isReady (fst (on_disconnected example_session example_ready ''NAVIGATION''))"
    using T by blast
  show ?thesis using h1 h2 h3 d t u once off by blast
qed

section \<open>Properties of the HTTP routes\<close>

lemma sendMessage_boolean:
  "fst (sendMessage api w to_id message) = Inr True
   \<or> fst (sendMessage api w to_id message) = Inr False"
  by (auto simp: sendMessage_def sendMessage_try_def split: prod.splits option.splits sum.splits)

text \<open>
  C6, as the code has it. \<^verbatim>\<open>POST /api/send\<close> answers 400 with \<^verbatim>\<open>success: false\<close>, and
  does not call \<^verbatim>\<open>sendMessage\<close>, when the parsed body is an object in which \<^verbatim>\<open>to\<close> or
  \<^verbatim>\<open>message\<close> is absent or is the empty string. When both are non-empty strings it calls
  \<^verbatim>\<open>sendMessage\<close> with them, once, and answers 200 with \<^verbatim>\<open>success: true\<close> if that
  reports \<^verbatim>\<open>true\<close> and 500 with \<^verbatim>\<open>success: false\<close> if it reports \<^verbatim>\<open>false\<close>. When no
  body was parsed (\<^verbatim>\<open>req.body\<close> is \<^verbatim>\<open>undefined\<close>) the destructuring throws, and the
  route's \<^verbatim>\<open>catch\<close> logs the error and answers 500 with \<^verbatim>\<open>success: false\<close>, again
  without a call of \<^verbatim>\<open>sendMessage\<close>. In every case the envelope's flag is \<^verbatim>\<open>true\<close>
  exactly for status 200.
\<close>

theorem post_api_send_statuses:
  "post_api_send api w None
     = (\<lparr>status = 500, body = Failure ''Failed to send message''\<rparr>, w,
        [ConsoleError (error_mark @ '' Error in send message endpoint:'') (Some TypeError)])
   \<and> (falsy (req_to req) \<or> falsy (req_message req) \<longrightarrow>
        post_api_send api w (Some req)
          = (\<lparr>status = 400, body = Failure both_required\<rparr>, w, []))
   \<and> (req_to req = Some to_id \<and> to_id \<noteq> [] \<and> req_message req = Some message \<and> message \<noteq> [] \<longrightarrow>
        (case sendMessage api w to_id message of
           (r, w', tr) \<Rightarrow>
             post_api_send api w (Some req)
               = (if r = Inr True
                  then \<lparr>status = 200, body = Success ''Message sent successfully''\<rparr>
                  else \<lparr>status = 500, body = Failure ''Failed to send message''\<rparr>, w', tr)))
   \<and> envelope_success (body (fst (post_api_send api w req_body)))
       = (status (fst (post_api_send api w req_body)) = 200)"
proof -
  have n: "post_api_send api w None
     = (\<lparr>status = 500, body = Failure ''Failed to send message''\<rparr>, w,
        [ConsoleError (error_mark @ '' Error in send message endpoint:'') (Some TypeError)])"
    by (simp add: post_api_send_def post_api_send_try_def)
  have a: "post_api_send api w (Some q) = (\<lparr>status = 400, body = Failure both_required\<rparr>, w, [])"
    if "falsy (req_to q) \<or> falsy (req_message q)" for q
    using that
    by (auto simp: post_api_send_def post_api_send_try_def falsy_def split: option.splits)
  have b: "post_api_send api w (Some q)
             = (if r = Inr True
                then \<lparr>status = 200, body = Success ''Message sent successfully''\<rparr>
                else \<lparr>status = 500, body = Failure ''Failed to send message''\<rparr>, w', tr)"
    if "req_to q = Some t" "t \<noteq> []" "req_message q = Some m" "m \<noteq> []"
      and "sendMessage api w t m = (r, w', tr)"
    for q t m r w' tr
    using that sendMessage_boolean [of api w t m]
    by (auto simp: post_api_send_def post_api_send_try_def falsy_def)
  have c: "envelope_success (body (fst (post_api_send api w req_body)))
             = (status (fst (post_api_send api w req_body)) = 200)"
  proof (cases req_body)
    case None
    then show ?thesis by (simp add: n)
  next
    case (Some q)
    show ?thesis
    proof (cases "falsy (req_to q) \<or> falsy (req_message q)")
      case True
      then show ?thesis using Some by (simp add: a)
    next
      case False
      then obtain t m where tm: "req_to q = Some t" "t \<noteq> []" "req_message q = Some m" "m \<noteq> []"
        by (auto simp: falsy_def split: option.splits)
      obtain r w' tr where s: "sendMessage api w t m = (r, w', tr)"
        by (cases "sendMessage api w t m")
      show ?thesis
        using Some b [OF tm s] by simp
    qed
  qed
  have b': "case sendMessage api w to_id message of
           (r, w', tr) \<Rightarrow>
             post_api_send api w (Some req)
               = (if r = Inr True
                  then \<lparr>status = 200, body = Success ''Message sent successfully''\<rparr>
                  else \<lparr>status = 500, body = Failure ''Failed to send message''\<rparr>, w', tr)"
    if "req_to req = Some to_id" "to_id \<noteq> []" "req_message req = Some message" "message \<noteq> []"
    using b [OF that] by (auto split: prod.splits)
  from c have c': "envelope_success (body (fst (post_api_send api w req_body)))
                     \<longleftrightarrow> status (fst (post_api_send api w req_body)) = 200" .
  show ?thesis
    apply (intro conjI impI)
       apply (rule n)
      apply (erule a [of req])
     apply (elim conjE)
     apply (erule (3) b')
    apply (rule c')
    done
qed

text \<open>
  C6 fails as stated: a body with both fields present, \<^verbatim>\<open>to\<close> being \<^verbatim>\<open>123\<close> and \<^verbatim>\<open>message\<close>
  the empty string, is answered 400 without a call of \<^verbatim>\<open>sendMessage\<close>, where the claim
  promises the call and 200 or 500.
\<close>

theorem post_api_send_empty_message_counterexample:
  "req_to \<lparr>req_to = Some ''123'', req_message = Some ''''\<rparr> \<noteq> None
   \<and> req_message \<lparr>req_to = Some ''123'', req_message = Some ''''\<rparr> \<noteq> None
   \<and> post_api_send example_session example_ready
       (Some \<lparr>req_to = Some ''123'', req_message = Some ''''\<rparr>)
       = (\<lparr>status = 400, body = Failure both_required\<rparr>, example_ready, [])
   \<and> status (fst (post_api_send example_session example_ready
                     (Some \<lparr>req_to = Some ''123'', req_message = Some ''''\<rparr>))) \<noteq> 200
   \<and> status (fst (post_api_send example_session example_ready
                     (Some \<lparr>req_to = Some ''123'', req_message = Some ''''\<rparr>))) \<noteq> 500"
  by (simp add: post_api_send_def post_api_send_try_def falsy_def)

theorem post_api_send_statuses_witness:
  "falsy (req_message \<lparr>req_to = Some ''123'', req_message = None\<rparr>)
   \<and> post_api_send example_session example_ready
         (Some \<lparr>req_to = Some ''123'', req_message = None\<rparr>)
       = (\<lparr>status = 400, body = Failure both_required\<rparr>, example_ready, [])
   \<and> fst (post_api_send example_session example_ready None)
       = \<lparr>status = 500, body = Failure ''Failed to send message''\<rparr>
   \<and> ''S1'' \<noteq> [] \<and> ''S2'' \<noteq> [] \<and> ''hi'' \<noteq> []
   \<and> fst (post_api_send example_session example_ready
            (Some \<lparr>req_to = Some ''S1'', req_message = Some ''hi''\<rparr>))
       = \<lparr>status = 200, body = Success ''Message sent successfully''\<rparr>
   \<and> fst (post_api_send example_session example_ready
            (Some \<lparr>req_to = Some ''S2'', req_message = Some ''hi''\<rparr>))
       = \<lparr>status = 500, body = Failure ''Failed to send message''\<rparr>"
proof -
  have s1: "sendMessage example_session example_ready ''S1'' ''hi''
              = (Inr True, example_ready\<lparr>client := Some 1\<rparr>,
                 [ClientSend ''S1'' ''hi'', ConsoleLog (ok_mark @ '' Message sent to S1'')])"
    and s2: "sendMessage example_session example_ready ''S2'' ''hi''
              = (Inr False, example_ready\<lparr>client := Some 1\<rparr>,
                 [ClientSend ''S2'' ''hi'',
                  ConsoleError (error_mark @ '' Error sending message to S2:'')
                    (Some (TransportError ''offline''))])"
    by (simp_all add: sendMessage_def sendMessage_try_def client_sendMessage_def
          example_session_def example_ready_def)
  have w0: "post_api_send example_session example_ready
              (Some \<lparr>req_to = Some ''123'', req_message = None\<rparr>)
       = (\<lparr>status = 400, body = Failure both_required\<rparr>, example_ready, [])"
    using post_api_send_statuses
         [where req = "\<lparr>req_to = Some ''123'', req_message = None\<rparr>" and api = example_session
            and w = example_ready]
    by (simp add: falsy_def)
  have wn: "fst (post_api_send example_session example_ready None)
       = \<lparr>status = 500, body = Failure ''Failed to send message''\<rparr>"
    using post_api_send_statuses [where api = example_session and w = example_ready]
    by simp
  have w1: "fst (post_api_send example_session example_ready
            (Some \<lparr>req_to = Some ''S1'', req_message = Some ''hi''\<rparr>))
       = \<lparr>status = 200, body = Success ''Message sent successfully''\<rparr>"
    using post_api_send_statuses
         [where req = "\<lparr>req_to = Some ''S1'', req_message = Some ''hi''\<rparr>"
            and api = example_session and w = example_ready and to_id = "''S1''"
            and message = "''hi''"]
    by (simp add: s1)
  have w2: "fst (post_api_send example_session example_ready
            (Some \<lparr>req_to = Some ''S2'', req_message = Some ''hi''\<rparr>))
       = \<lparr>status = 500, body = Failure ''Failed to send message''\<rparr>"
    using post_api_send_statuses
         [where req = "\<lparr>req_to = Some ''S2'', req_message = Some ''hi''\<rparr>"
            and api = example_session and w = example_ready and to_id = "''S2''"
            and message = "''hi''"]
    by (simp add: s2)
  show ?thesis using w0 wn w1 w2 by (simp add: falsy_def)
qed


end
